theory Spec2Isabelle
  imports Complex_Main
begin

section \<open>Calendar dates and instants\<close>

text \<open>
  A \<^verbatim>\<open>datetime.date\<close> is represented by its proleptic Gregorian ordinal
  (\<^verbatim>\<open>date.toordinal()\<close>: day 1 is 0001-01-01, a Monday), so that
  \<^verbatim>\<open>d + timedelta(days=n)\<close> is integer addition and dates compare as integers.
  The bounds of Python's date type (years 1 to 9999, \<^verbatim>\<open>OverflowError\<close> outside)
  are not part of the model.
\<close>

type_synonym date = int

definition is_leap :: "int \<Rightarrow> bool" where
  "is_leap y = (y mod 4 = 0 \<and> (y mod 100 \<noteq> 0 \<or> y mod 400 = 0))"

definition days_before_year :: "int \<Rightarrow> int" where
  "days_before_year year = (let y = year - 1 in y * 365 + y div 4 - y div 100 + y div 400)"

definition DAYS_BEFORE_MONTH :: "(int \<times> int) list" where
  "DAYS_BEFORE_MONTH =
     [(1, 0), (2, 31), (3, 59), (4, 90), (5, 120), (6, 151),
      (7, 181), (8, 212), (9, 243), (10, 273), (11, 304), (12, 334)]"

definition days_before_month :: "int \<Rightarrow> int \<Rightarrow> int" where
  "days_before_month year month =
     (case map_of DAYS_BEFORE_MONTH month of
        Some n \<Rightarrow> n + (if month > 2 \<and> is_leap year then 1 else 0)
      | None \<Rightarrow> 0)"

text \<open>\<^verbatim>\<open>date(year, month, day)\<close> for a valid calendar date.\<close>

definition mk_date :: "int \<Rightarrow> int \<Rightarrow> int \<Rightarrow> date" where
  "mk_date year month day = days_before_year year + days_before_month year month + day"

text \<open>\<^verbatim>\<open>d.year\<close>: the year component of the ordinal, in 400/100/4/1-year cycles.\<close>

definition date_year :: "date \<Rightarrow> int" where
  "date_year d =
     (let n = d - 1;
          n400 = n div 146097; r400 = n mod 146097;
          n100 = r400 div 36524; r100 = r400 mod 36524;
          n4 = r100 div 1461; r4 = r100 mod 1461;
          n1 = r4 div 365;
          year = n400 * 400 + 1 + n100 * 100 + n4 * 4 + n1
      in if n1 = 4 \<or> n100 = 4 then year - 1 else year)"

text \<open>\<^verbatim>\<open>d.weekday()\<close>: Monday is 0, Saturday 5, Sunday 6.\<close>

definition weekday :: "date \<Rightarrow> int" where
  "weekday d = (d + 6) mod 7"

text \<open>
  A \<^verbatim>\<open>datetime\<close>: its calendar date, its wall-clock fields, and its
  \<^verbatim>\<open>tzinfo\<close> as the UTC offset in microseconds (\<open>None\<close> for a naive value,
  \<open>Some 0\<close> for \<^verbatim>\<open>timezone.utc\<close>). A \<^verbatim>\<open>timedelta\<close> is a number of
  microseconds.
\<close>

record datetime =
  dt_date :: date
  dt_hour :: int
  dt_minute :: int
  dt_second :: int
  dt_microsecond :: int
  dt_tzinfo :: "int option"

definition US_PER_SECOND :: int where "US_PER_SECOND = 1000000"
definition US_PER_HOUR :: int where "US_PER_HOUR = 3600 * 1000000"
definition US_PER_DAY :: int where "US_PER_DAY = 86400 * 1000000"

definition wall_us :: "datetime \<Rightarrow> int" where
  "wall_us t =
     dt_date t * US_PER_DAY
     + ((dt_hour t * 60 + dt_minute t) * 60 + dt_second t) * US_PER_SECOND
     + dt_microsecond t"

text \<open>
  The instant an aware datetime denotes, in microseconds of UTC. Aware datetimes are
  compared and subtracted through it. On a naive value it reads the fields as UTC, which is
  what the engine's \<^verbatim>\<open>replace(tzinfo=timezone.utc)\<close> does before every comparison.
\<close>

definition utc_instant :: "datetime \<Rightarrow> int" where
  "utc_instant t = wall_us t - (case dt_tzinfo t of Some off \<Rightarrow> off | None \<Rightarrow> 0)"

definition of_wall_us :: "int \<Rightarrow> int option \<Rightarrow> datetime" where
  "of_wall_us w tz =
     (let s = (w mod US_PER_DAY) div US_PER_SECOND in
      \<lparr>dt_date = w div US_PER_DAY,
       dt_hour = s div 3600,
       dt_minute = (s mod 3600) div 60,
       dt_second = s mod 60,
       dt_microsecond = w mod US_PER_SECOND,
       dt_tzinfo = tz\<rparr>)"

text \<open>\<^verbatim>\<open>datetime.now(timezone.utc)\<close> when the clock stands at instant \<open>clock\<close>.\<close>

definition datetime_now_utc :: "int \<Rightarrow> datetime" where
  "datetime_now_utc clock = of_wall_us clock (Some 0)"

text \<open>\<^verbatim>\<open>t + timedelta\<close>: wall-clock arithmetic, the \<^verbatim>\<open>tzinfo\<close> kept.\<close>

definition datetime_add :: "datetime \<Rightarrow> int \<Rightarrow> datetime" where
  "datetime_add t delta = of_wall_us (wall_us t + delta) (dt_tzinfo t)"

text \<open>\<^verbatim>\<open>timedelta.total_seconds()\<close>, as an exact rational.\<close>

definition total_seconds :: "int \<Rightarrow> rat" where
  "total_seconds delta = of_int delta / 1000000"

text \<open>\<^verbatim>\<open>x or y\<close> on \<^verbatim>\<open>int | None\<close>: \<^verbatim>\<open>None\<close> and \<^verbatim>\<open>0\<close> are both falsy.\<close>

definition py_or :: "int option \<Rightarrow> int \<Rightarrow> int" where
  "py_or x y = (case x of None \<Rightarrow> y | Some v \<Rightarrow> if v = 0 then y else v)"

text \<open>\<^verbatim>\<open>d.get(k, default)\<close> on a dictionary literal.\<close>

definition dict_get :: "('k \<times> 'v) list \<Rightarrow> 'k \<Rightarrow> 'v \<Rightarrow> 'v" where
  "dict_get d k dflt = (case map_of d k of Some v \<Rightarrow> v | None \<Rightarrow> dflt)"

section \<open>Enumerations and the action item\<close>

datatype ActionItemStatus = NEW | IN_PROGRESS | WAITING_EXTERNAL | DONE | VERIFIED

datatype ActionItemCategory =
  REGULATORY | CONSENT_ICF | DATA_ENTRY | QUERIES | SAFETY_REPORTING | SAMPLES
  | IMAGING | PHARMACY_IP | TRAINING | CONTRACTS_BUDGET | OTHER

datatype SeverityLevel = CRITICAL | MAJOR | MINOR | INFO

fun status_value :: "ActionItemStatus \<Rightarrow> string" where
  "status_value NEW = ''new''"
| "status_value IN_PROGRESS = ''in_progress''"
| "status_value WAITING_EXTERNAL = ''waiting_external''"
| "status_value DONE = ''done''"
| "status_value VERIFIED = ''verified''"

fun category_value :: "ActionItemCategory \<Rightarrow> string" where
  "category_value REGULATORY = ''regulatory''"
| "category_value CONSENT_ICF = ''consent_icf''"
| "category_value DATA_ENTRY = ''data_entry''"
| "category_value QUERIES = ''queries''"
| "category_value SAFETY_REPORTING = ''safety_reporting''"
| "category_value SAMPLES = ''samples''"
| "category_value IMAGING = ''imaging''"
| "category_value PHARMACY_IP = ''pharmacy_ip''"
| "category_value TRAINING = ''training''"
| "category_value CONTRACTS_BUDGET = ''contracts_budget''"
| "category_value OTHER = ''other''"

fun severity_value :: "SeverityLevel \<Rightarrow> string" where
  "severity_value CRITICAL = ''critical''"
| "severity_value MAJOR = ''major''"
| "severity_value MINOR = ''minor''"
| "severity_value INFO = ''info''"

text \<open>Identifiers (UUIDs) are opaque; natural numbers stand for them.\<close>

type_synonym uuid = nat

text \<open>
  The columns of \<^verbatim>\<open>ActionItem\<close>. \<^verbatim>\<open>updated_at\<close>, which the database server
  maintains, is left out.
\<close>

record action_item =
  ai_id :: uuid
  study_id :: uuid
  monitor_letter_id :: "uuid option"
  title :: string
  description :: "string option"
  category :: ActionItemCategory
  severity :: SeverityLevel
  status :: ActionItemStatus
  assigned_to :: "uuid option"
  created_by :: uuid
  due_date :: "datetime option"
  sla_deadline :: "datetime option"
  escalation_level :: int
  resolved_at :: "datetime option"
  verified_at :: "datetime option"
  verified_by :: "uuid option"
  created_at :: datetime

definition is_open :: "action_item \<Rightarrow> bool" where
  "is_open item = (status item \<notin> set [DONE, VERIFIED])"

section \<open>The SLA engine\<close>

datatype py_error = ZeroDivisionError

definition DEFAULT_SLA_HOURS :: "(string \<times> int) list" where
  "DEFAULT_SLA_HOURS = [(''critical'', 48), (''major'', 40), (''minor'', 80), (''info'', 120)]"

definition DEFAULT_ESCALATION_HOURS :: "(string \<times> int) list" where
  "DEFAULT_ESCALATION_HOURS =
     [(''critical'', 24), (''major'', 20), (''minor'', 40), (''info'', 80)]"

text \<open>
  \<^verbatim>\<open>dateutil.easter.easter(year)\<close> with its default method (the western, Gregorian
  computus): a library function the engine imports.
\<close>

definition easter :: "int \<Rightarrow> date" where
  "easter y =
     (let g = y mod 19;
          c = y div 100;
          h = (c - c div 4 - (8 * c + 13) div 25 + 19 * g + 15) mod 30;
          i = h - (h div 28) * (1 - (h div 28) * (29 div (h + 1)) * ((21 - g) div 11));
          j = (y + y div 4 + i + 2 - c + c div 4) mod 7;
          p = i - j;
          d = 1 + (p + 27 + (p + 6) div 40) mod 31;
          m = 3 + (p + 26) div 30
      in mk_date y m d)"

text \<open>The holiday set that \<^verbatim>\<open>get_brazilian_holidays\<close> builds on a cache miss.\<close>

definition build_holidays :: "int \<Rightarrow> date set" where
  "build_holidays year =
     (let holidays =
            {mk_date year 1 1, mk_date year 4 21, mk_date year 5 1, mk_date year 9 7,
             mk_date year 10 12, mk_date year 11 2, mk_date year 11 15, mk_date year 12 25};
          easter_date = easter year
      in insert (easter_date + 60)
           (insert easter_date
             (insert (easter_date - 2)
               (insert (easter_date - 46)
                 (insert (easter_date - 47) holidays)))))"

text \<open>
  The engine's only state is \<^verbatim>\<open>_holiday_cache\<close>, a dictionary from years to holiday
  sets. Every method that consults it takes the cache and returns it updated.
\<close>

type_synonym holiday_cache = "int \<rightharpoonup> date set"

definition get_brazilian_holidays :: "holiday_cache \<Rightarrow> int \<Rightarrow> date set \<times> holiday_cache" where
  "get_brazilian_holidays cache year =
     (case cache year of
        Some holidays \<Rightarrow> (holidays, cache)
      | None \<Rightarrow> (let holidays = build_holidays year in (holidays, cache(year \<mapsto> holidays))))"

definition is_business_day :: "holiday_cache \<Rightarrow> date \<Rightarrow> bool \<times> holiday_cache" where
  "is_business_day cache d =
     (if weekday d \<ge> 5 then (False, cache)
      else (let (holidays, cache') = get_brazilian_holidays cache (date_year d)
            in (d \<notin> holidays, cache')))"

text \<open>
  The two loops of \<^verbatim>\<open>add_business_hours\<close>. Neither has a bound in the source, so
  each is a partial function and \<open>None\<close> stands for a loop that never ends.
\<close>

partial_function (option) add_full_days ::
  "holiday_cache \<Rightarrow> date \<Rightarrow> int \<Rightarrow> int \<Rightarrow> (date \<times> holiday_cache) option" where
  "add_full_days cache current_date days_added full_days =
     (if days_added < full_days then
        (let current_date' = current_date + 1;
             (b, cache') = is_business_day cache current_date'
         in add_full_days cache' current_date' (if b then days_added + 1 else days_added) full_days)
      else Some (current_date, cache))"

partial_function (option) next_business_day ::
  "holiday_cache \<Rightarrow> date \<Rightarrow> (date \<times> holiday_cache) option" where
  "next_business_day cache next_day =
     (let (b, cache') = is_business_day cache next_day
      in if \<not> b then next_business_day cache' (next_day + 1) else Some (next_day, cache'))"

declare add_full_days.simps [code]
declare next_business_day.simps [code]

definition add_business_hours ::
  "holiday_cache \<Rightarrow> datetime \<Rightarrow> int \<Rightarrow> int \<Rightarrow> (py_error + datetime \<times> holiday_cache) option" where
  "add_business_hours cache start hours business_hours_per_day =
     (if business_hours_per_day = 0 then Some (Inl ZeroDivisionError)
      else
        (let full_days = hours div business_hours_per_day;
             remaining_hours = hours mod business_hours_per_day
         in case add_full_days cache (dt_date start) 0 full_days of
              None \<Rightarrow> None
            | Some (current_date, cache1) \<Rightarrow>
                (let result =
                       datetime_add
                         \<lparr>dt_date = current_date, dt_hour = dt_hour start,
                          dt_minute = dt_minute start, dt_second = dt_second start,
                          dt_microsecond = 0, dt_tzinfo = dt_tzinfo start\<rparr>
                         (remaining_hours * US_PER_HOUR)
                 in if dt_date result > current_date then
                      (case next_business_day cache1 (dt_date result) of
                         None \<Rightarrow> None
                       | Some (next_day, cache2) \<Rightarrow>
                           Some (Inr (\<lparr>dt_date = next_day, dt_hour = 8, dt_minute = 0,
                                       dt_second = 0, dt_microsecond = 0,
                                       dt_tzinfo = dt_tzinfo start\<rparr>, cache2)))
                    else Some (Inr (result, cache1)))))"

definition calculate_sla_deadline ::
  "holiday_cache \<Rightarrow> datetime \<Rightarrow> SeverityLevel \<Rightarrow> int option
     \<Rightarrow> (py_error + datetime \<times> holiday_cache) option" where
  "calculate_sla_deadline cache created_at0 sev resolution_hours =
     (let hours = py_or resolution_hours (dict_get DEFAULT_SLA_HOURS (severity_value sev) 80);
          created_at1 = (if dt_tzinfo created_at0 = None then created_at0\<lparr>dt_tzinfo := Some 0\<rparr>
                         else created_at0)
      in add_business_hours cache created_at1 hours 8)"

text \<open>
  \<^verbatim>\<open>get_escalation_level\<close>; \<open>clock\<close> is the instant at which it reads
  \<^verbatim>\<open>datetime.now(timezone.utc)\<close>. The quotients of \<^verbatim>\<open>total_seconds()\<close> are exact
  rationals here, binary doubles in the source.
\<close>

definition get_escalation_level :: "int \<Rightarrow> action_item \<Rightarrow> int option \<Rightarrow> int" where
  "get_escalation_level clock item escalation_hours =
     (case sla_deadline item of
        None \<Rightarrow> 0
      | Some deadline0 \<Rightarrow>
          if \<not> is_open item then 0
          else
            (let hours = py_or escalation_hours
                           (dict_get DEFAULT_ESCALATION_HOURS (severity_value (severity item)) 40);
                 now = datetime_now_utc clock;
                 created = (if dt_tzinfo (created_at item) = None
                            then (created_at item)\<lparr>dt_tzinfo := Some 0\<rparr> else created_at item);
                 deadline = (if dt_tzinfo deadline0 = None
                             then deadline0\<lparr>dt_tzinfo := Some 0\<rparr> else deadline0);
                 elapsed = total_seconds (utc_instant now - utc_instant created) / 3600
             in if utc_instant now > utc_instant deadline then
                  (let overdue_hours = total_seconds (utc_instant now - utc_instant deadline) / 3600;
                       additional_levels = \<lfloor>overdue_hours / of_int hours\<rfloor>
                   in 2 + additional_levels)
                else if elapsed \<ge> of_int hours then 1
                else 0))"

section \<open>The action-item routes\<close>

text \<open>
  What a handler can answer instead of a response: an \<^verbatim>\<open>HTTPException\<close> with its
  status code and detail, or an exception nobody catches (the request ends in a server
  error and nothing is committed).
\<close>

datatype api_error = HTTPException int string | UncaughtException

text \<open>
  A value written to the audit trail. The trail stores text: \<open>StrVal s\<close> is the text
  \<open>s\<close> itself, \<open>UuidVal u\<close> and \<open>DatetimeVal t\<close> stand for \<^verbatim>\<open>str(u)\<close> and
  \<^verbatim>\<open>str(t)\<close>.
\<close>

datatype field_value = StrVal string | UuidVal uuid | DatetimeVal datetime

text \<open>The audit model \<^verbatim>\<open>ActionItemUpdate\<close> (table \<^verbatim>\<open>action_item_updates\<close>).\<close>

record ActionItemUpdate =
  action_item_id :: uuid
  user_id :: uuid
  field_changed :: "string option"
  old_value :: "field_value option"
  new_value :: "field_value option"
  comment :: "string option"

text \<open>
  The request schema of the general update. Every field may be left unset (\<open>None\<close>),
  or be set, possibly to \<^verbatim>\<open>null\<close> (\<open>Some None\<close>);
  \<^verbatim>\<open>model_dump(exclude_unset=True)\<close> keeps the fields that are set, in this order.
\<close>

record ActionItemUpdateSchema =
  u_title :: "string option option"
  u_description :: "string option option"
  u_category :: "ActionItemCategory option option"
  u_severity :: "SeverityLevel option option"
  u_status :: "ActionItemStatus option option"
  u_assigned_to :: "uuid option option"
  u_due_date :: "datetime option option"
  u_comment :: "string option"

record ActionItemStatusUpdate =
  su_status :: ActionItemStatus
  su_comment :: "string option"

text \<open>The database session: the action items by id, and the audit trail in insertion order.\<close>

record db =
  items :: "uuid \<rightharpoonup> action_item"
  updates :: "ActionItemUpdate list"

definition add_update ::
  "db \<Rightarrow> uuid \<Rightarrow> uuid \<Rightarrow> string option \<Rightarrow> field_value option \<Rightarrow> field_value option
     \<Rightarrow> string option \<Rightarrow> db" where
  "add_update d aid uid field old new cmt =
     d\<lparr>updates := updates d @
          [\<lparr>action_item_id = aid, user_id = uid, field_changed = field,
            old_value = old, new_value = new, comment = cmt\<rparr>]\<rparr>"

text \<open>
  \<^verbatim>\<open>==\<close> on \<^verbatim>\<open>datetime | None\<close>: two aware values are equal when they denote the
  same instant, two naive ones when their fields agree, and a naive value never equals an
  aware one.
\<close>

definition datetime_eq :: "datetime \<Rightarrow> datetime \<Rightarrow> bool" where
  "datetime_eq a b =
     (case (dt_tzinfo a, dt_tzinfo b) of
        (None, None) \<Rightarrow> wall_us a = wall_us b
      | (Some _, Some _) \<Rightarrow> utc_instant a = utc_instant b
      | _ \<Rightarrow> False)"

definition opt_eq :: "('a \<Rightarrow> 'a \<Rightarrow> bool) \<Rightarrow> 'a option \<Rightarrow> 'a option \<Rightarrow> bool" where
  "opt_eq eq a b =
     (case (a, b) of (None, None) \<Rightarrow> True | (Some x, Some y) \<Rightarrow> eq x y | _ \<Rightarrow> False)"

text \<open>
  One round of the loop over \<^verbatim>\<open>update_data.items()\<close> in \<^verbatim>\<open>update_action_item\<close>,
  for the field named \<open>field\<close>: nothing when the field is unset or its value unchanged,
  otherwise one audit entry and the assignment. \<open>render\<close> is the text the audit entry
  shows for a value (\<^verbatim>\<open>.value\<close> of an enumeration member, \<^verbatim>\<open>str\<close> otherwise).
\<close>

definition edit_field ::
  "string \<Rightarrow> ('a \<Rightarrow> 'a \<Rightarrow> bool) \<Rightarrow> ('a \<Rightarrow> field_value) \<Rightarrow> (action_item \<Rightarrow> 'a option)
     \<Rightarrow> ('a option \<Rightarrow> action_item \<Rightarrow> action_item) \<Rightarrow> 'a option option
     \<Rightarrow> uuid \<Rightarrow> uuid \<Rightarrow> string option \<Rightarrow> action_item \<times> db \<Rightarrow> action_item \<times> db" where
  "edit_field field eq render getattr setattr update item_id uid cmt st =
     (case update of
        None \<Rightarrow> st
      | Some new \<Rightarrow>
          (let (item, d) = st; old = getattr item in
           if opt_eq eq old new then st
           else (setattr new item,
                 add_update d item_id uid (Some field) (map_option render old)
                   (map_option render new) cmt)))"

text \<open>
  \<^verbatim>\<open>update_action_item\<close> (PUT). \<open>clock\<close> is the instant at which the handler reads
  the time, \<open>engine_clock\<close> the instant at which the engine does. The columns
  \<^verbatim>\<open>title\<close>, \<^verbatim>\<open>category\<close>, \<^verbatim>\<open>severity\<close> and \<^verbatim>\<open>status\<close> are not nullable:
  a request that sets one of them to \<^verbatim>\<open>null\<close> is assigned like any other and then fails
  in the engine or at the flush, which is the \<open>UncaughtException\<close> branch.
\<close>

definition update_action_item ::
  "db \<Rightarrow> uuid \<Rightarrow> ActionItemUpdateSchema \<Rightarrow> uuid \<Rightarrow> int \<Rightarrow> int \<Rightarrow> api_error + db \<times> action_item" where
  "update_action_item d item_id item_in current_user clock engine_clock =
     (case items d item_id of
        None \<Rightarrow> Inl (HTTPException 404 ''Action item not found'')
      | Some item0 \<Rightarrow>
          if u_title item_in = Some None \<or> u_category item_in = Some None
             \<or> u_severity item_in = Some None \<or> u_status item_in = Some None
          then Inl UncaughtException
          else
            (let cmt = u_comment item_in;
                 st1 = edit_field ''title'' (=) StrVal (\<lambda>i. Some (title i))
                         (\<lambda>v i. case v of Some x \<Rightarrow> i\<lparr>title := x\<rparr> | None \<Rightarrow> i)
                         (u_title item_in) item_id current_user cmt (item0, d);
                 st2 = edit_field ''description'' (=) StrVal description
                         (\<lambda>v i. i\<lparr>description := v\<rparr>)
                         (u_description item_in) item_id current_user cmt st1;
                 st3 = edit_field ''category'' (=) (\<lambda>c. StrVal (category_value c))
                         (\<lambda>i. Some (category i))
                         (\<lambda>v i. case v of Some x \<Rightarrow> i\<lparr>category := x\<rparr> | None \<Rightarrow> i)
                         (u_category item_in) item_id current_user cmt st2;
                 st4 = edit_field ''severity'' (=) (\<lambda>c. StrVal (severity_value c))
                         (\<lambda>i. Some (severity i))
                         (\<lambda>v i. case v of Some x \<Rightarrow> i\<lparr>severity := x\<rparr> | None \<Rightarrow> i)
                         (u_severity item_in) item_id current_user cmt st3;
                 st5 = edit_field ''status'' (=) (\<lambda>c. StrVal (status_value c))
                         (\<lambda>i. Some (status i))
                         (\<lambda>v i. case v of Some x \<Rightarrow> i\<lparr>status := x\<rparr> | None \<Rightarrow> i)
                         (u_status item_in) item_id current_user cmt st4;
                 st6 = edit_field ''assigned_to'' (=) UuidVal assigned_to
                         (\<lambda>v i. i\<lparr>assigned_to := v\<rparr>)
                         (u_assigned_to item_in) item_id current_user cmt st5;
                 st7 = edit_field ''due_date'' datetime_eq DatetimeVal due_date
                         (\<lambda>v i. i\<lparr>due_date := v\<rparr>)
                         (u_due_date item_in) item_id current_user cmt st6;
                 (item7, d7) = st7;
                 item8 =
                   (case u_status item_in of
                      None \<Rightarrow> item7
                    | Some new_status \<Rightarrow>
                        if new_status = Some DONE then
                          item7\<lparr>resolved_at := Some (datetime_now_utc clock)\<rparr>
                        else if new_status = Some VERIFIED then
                          item7\<lparr>verified_at := Some (datetime_now_utc clock),
                                verified_by := Some current_user\<rparr>
                        else item7);
                 item9 = item8\<lparr>escalation_level := get_escalation_level engine_clock item8 None\<rparr>
             in Inr (d7\<lparr>items := (items d7)(item_id \<mapsto> item9)\<rparr>, item9)))"

definition valid_transitions :: "(ActionItemStatus \<times> ActionItemStatus list) list" where
  "valid_transitions =
     [(NEW, [IN_PROGRESS, WAITING_EXTERNAL]),
      (IN_PROGRESS, [WAITING_EXTERNAL, DONE, NEW]),
      (WAITING_EXTERNAL, [IN_PROGRESS, DONE]),
      (DONE, [VERIFIED, IN_PROGRESS]),
      (VERIFIED, [])]"

text \<open>\<^verbatim>\<open>update_action_item_status\<close> (PATCH), with the same two clock readings.\<close>

definition update_action_item_status ::
  "db \<Rightarrow> uuid \<Rightarrow> ActionItemStatusUpdate \<Rightarrow> uuid \<Rightarrow> int \<Rightarrow> int \<Rightarrow> api_error + db \<times> action_item" where
  "update_action_item_status d item_id status_in current_user clock engine_clock =
     (case items d item_id of
        None \<Rightarrow> Inl (HTTPException 404 ''Action item not found'')
      | Some item0 \<Rightarrow>
          (let old_status = status item0 in
           if su_status status_in \<notin> set (dict_get valid_transitions old_status []) then
             Inl (HTTPException 400
                    (''Invalid status transition from '' @ status_value old_status
                       @ '' to '' @ status_value (su_status status_in)))
           else
             (let d1 = add_update d item_id current_user (Some ''status'')
                         (Some (StrVal (status_value old_status)))
                         (Some (StrVal (status_value (su_status status_in))))
                         (su_comment status_in);
                  item1 = item0\<lparr>status := su_status status_in\<rparr>;
                  item2 =
                    (if su_status status_in = DONE then
                       item1\<lparr>resolved_at := Some (datetime_now_utc clock)\<rparr>
                     else if su_status status_in = VERIFIED then
                       item1\<lparr>verified_at := Some (datetime_now_utc clock),
                             verified_by := Some current_user\<rparr>
                     else item1);
                  item3 = item2\<lparr>escalation_level := get_escalation_level engine_clock item2 None\<rparr>
              in Inr (d1\<lparr>items := (items d1)(item_id \<mapsto> item3)\<rparr>, item3))))"

section \<open>The aggregation queries of the repository\<close>

text \<open>
  The queries run over the rows of the \<^verbatim>\<open>action_items\<close> table, given here as a list.
  \<^verbatim>\<open>select(func.count()) ... where(c)\<close> is the number of rows that satisfy \<open>c\<close>;
  timestamp columns carry a time zone and compare as instants.
\<close>

definition sql_count :: "('a \<Rightarrow> bool) \<Rightarrow> 'a list \<Rightarrow> int" where
  "sql_count c rows = int (length (filter c rows))"

text \<open>\<^verbatim>\<open>GROUP BY\<close> a column, as the dictionary from the column's text to its count.\<close>

definition group_count :: "('a \<Rightarrow> string) \<Rightarrow> 'a list \<Rightarrow> string \<rightharpoonup> int" where
  "group_count key rows =
     (\<lambda>k. let n = sql_count (\<lambda>r. key r = k) rows in if n = 0 then None else Some n)"

text \<open>
  \<^verbatim>\<open>round(x, 1)\<close> is a parameter \<open>round1\<close> of the query that uses it. The source
  rounds a binary double, and the neighbour an exact tie goes to depends on the
  representation error of the double; what every such rounding does is to answer with a
  number of one decimal that is nearest to its argument. \<open>py_round1\<close>, where a tie goes to
  the even neighbour, is one such rounding.
\<close>

definition rounds_to_tenth :: "(rat \<Rightarrow> rat) \<Rightarrow> bool" where
  "rounds_to_tenth round1 =
     (\<forall>x. (\<exists>n::int. round1 x = of_int n / 10) \<and> \<bar>round1 x - x\<bar> \<le> 1 / 20)"

definition py_round1 :: "rat \<Rightarrow> rat" where
  "py_round1 x =
     (let y = x * 10; f = \<lfloor>y\<rfloor>; r = y - of_int f in
      of_int (if r < 1 / 2 then f else if r > 1 / 2 then f + 1
              else if even f then f else f + 1) / 10)"

record stats =
  st_total :: int
  st_open :: int
  st_overdue :: int
  st_by_status :: "string \<rightharpoonup> int"
  st_by_category :: "string \<rightharpoonup> int"
  st_by_severity :: "string \<rightharpoonup> int"
  st_sla_compliance_percentage :: rat
  st_average_resolution_hours :: "rat option"

definition get_stats ::
  "(rat \<Rightarrow> rat) \<Rightarrow> action_item list \<Rightarrow> int \<Rightarrow> uuid option \<Rightarrow> stats" where
  "get_stats round1 rows clock study =
     (let now = datetime_now_utc clock;
          open_statuses = [NEW, IN_PROGRESS, WAITING_EXTERNAL];
          base_condition = (\<lambda>r. case study of Some sid \<Rightarrow> study_id r = sid | None \<Rightarrow> True);
          total = sql_count base_condition rows;
          open_count = sql_count (\<lambda>r. base_condition r \<and> status r \<in> set open_statuses) rows;
          overdue_count =
            sql_count (\<lambda>r. base_condition r \<and> status r \<in> set open_statuses
                         \<and> (case sla_deadline r of
                               Some dl \<Rightarrow> utc_instant dl < utc_instant now | None \<Rightarrow> False)) rows;
          by_status = group_count (\<lambda>r. status_value (status r)) (filter base_condition rows);
          by_category = group_count (\<lambda>r. category_value (category r)) (filter base_condition rows);
          by_severity = group_count (\<lambda>r. severity_value (severity r)) (filter base_condition rows);
          total_resolved_with_sla =
            sql_count (\<lambda>r. base_condition r \<and> status r \<in> set [DONE, VERIFIED]
                         \<and> sla_deadline r \<noteq> None) rows;
          on_time_count =
            sql_count (\<lambda>r. base_condition r \<and> status r \<in> set [DONE, VERIFIED]
                         \<and> (case (sla_deadline r, resolved_at r) of
                               (Some dl, Some res) \<Rightarrow> utc_instant res \<le> utc_instant dl
                             | _ \<Rightarrow> False)) rows;
          sla_compliance =
            (if total_resolved_with_sla > 0
             then of_int on_time_count / of_int total_resolved_with_sla * 100
             else 100);
          resolved_rows = filter (\<lambda>r. base_condition r \<and> resolved_at r \<noteq> None) rows;
          avg_resolution_hours =
            (if resolved_rows = [] then None
             else Some (sum_list
                          (map (\<lambda>r. case resolved_at r of
                                       Some res \<Rightarrow>
                                         total_seconds (utc_instant res - utc_instant (created_at r))
                                           / 3600
                                     | None \<Rightarrow> 0) resolved_rows)
                        / of_nat (length resolved_rows)))
      in \<lparr>st_total = total, st_open = open_count, st_overdue = overdue_count,
          st_by_status = by_status, st_by_category = by_category, st_by_severity = by_severity,
          st_sla_compliance_percentage = round1 sla_compliance,
          st_average_resolution_hours =
            (case avg_resolution_hours of
               None \<Rightarrow> None
             | Some a \<Rightarrow> if a = 0 then None else Some (round1 a))\<rparr>)"

text \<open>
  One point of the burndown series; \<open>bp_date\<close> is the day whose ISO text the source
  stores.
\<close>

record burndown_point =
  bp_date :: date
  open_items :: int
  closed_items :: int
  cumulative_closed :: int

text \<open>
  The loop of \<^verbatim>\<open>get_burndown_data\<close> over the days up to \<^verbatim>\<open>now.date()\<close>;
  \<open>rows\<close> are the selected \<^verbatim>\<open>(created_at, resolved_at)\<close> pairs.
\<close>

function burndown_loop ::
  "(datetime \<times> datetime option) list \<Rightarrow> date \<Rightarrow> date \<Rightarrow> int \<Rightarrow> burndown_point list
     \<Rightarrow> burndown_point list" where
  "burndown_loop rows now_date current_date cumulative data =
     (if current_date \<le> now_date then
        (let day_start = \<lparr>dt_date = current_date, dt_hour = 0, dt_minute = 0, dt_second = 0,
                          dt_microsecond = 0, dt_tzinfo = Some 0\<rparr>;
             day_end = datetime_add day_start US_PER_DAY;
             created_by_day =
               sql_count (\<lambda>(c, r). utc_instant c \<le> utc_instant day_end) rows;
             resolved_by_day =
               sql_count (\<lambda>(c, r). case r of
                                      Some t \<Rightarrow> utc_instant t \<le> utc_instant day_end
                                    | None \<Rightarrow> False) rows;
             closed_today =
               sql_count (\<lambda>(c, r). case r of
                                      Some t \<Rightarrow> utc_instant day_start \<le> utc_instant t
                                                \<and> utc_instant t < utc_instant day_end
                                    | None \<Rightarrow> False) rows;
             cumulative' = cumulative + closed_today
         in burndown_loop rows now_date (current_date + 1) cumulative'
              (data @ [\<lparr>bp_date = current_date,
                         open_items = created_by_day - resolved_by_day,
                         closed_items = closed_today,
                         cumulative_closed = cumulative'\<rparr>]))
      else data)"
  by pat_completeness auto
termination
  by (relation "measure (\<lambda>(rows, now_date, current_date, cumulative, data).
                            nat (now_date + 1 - current_date))") auto

declare burndown_loop.simps [simp del]

definition get_burndown_data :: "action_item list \<Rightarrow> int \<Rightarrow> int \<Rightarrow> burndown_point list" where
  "get_burndown_data table clock days =
     (let now = datetime_now_utc clock;
          start_date = datetime_add now (- days * US_PER_DAY);
          rows = map (\<lambda>r. (created_at r, resolved_at r))
                   (filter (\<lambda>r. utc_instant (created_at r) \<le> utc_instant now) table)
      in burndown_loop rows (dt_date now) (dt_date start_date) 0 [])"

section \<open>The specification's transition table, and sample data\<close>

text \<open>
  The adjacency table as the specification words it: new to in_progress; in_progress to
  waiting_external or done; waiting_external to in_progress or done; done to verified or
  in_progress; nothing out of verified.
\<close>

definition spec_adjacency :: "(ActionItemStatus \<times> ActionItemStatus) list" where
  "spec_adjacency =
     [(NEW, IN_PROGRESS),
      (IN_PROGRESS, WAITING_EXTERNAL), (IN_PROGRESS, DONE),
      (WAITING_EXTERNAL, IN_PROGRESS), (WAITING_EXTERNAL, DONE),
      (DONE, VERIFIED), (DONE, IN_PROGRESS)]"

text \<open>A handler succeeded when it answered with a response and not with an error.\<close>

definition succeeded :: "'e + 'a \<Rightarrow> bool" where
  "succeeded r = (case r of Inl _ \<Rightarrow> False | Inr _ \<Rightarrow> True)"

text \<open>\<^verbatim>\<open>datetime(y, m, d, hh, mm, ss, tzinfo=timezone.utc)\<close>.\<close>

definition utc_datetime :: "int \<Rightarrow> int \<Rightarrow> int \<Rightarrow> int \<Rightarrow> int \<Rightarrow> int \<Rightarrow> datetime" where
  "utc_datetime y m d hh mm ss =
     \<lparr>dt_date = mk_date y m d, dt_hour = hh, dt_minute = mm, dt_second = ss,
      dt_microsecond = 0, dt_tzinfo = Some 0\<rparr>"

text \<open>
  A critical item created on Friday 7 June 2024 at 16:00 UTC, with the deadline the engine
  gives it, and a database that holds one item.
\<close>

definition sample_item :: action_item where
  "sample_item =
     \<lparr>ai_id = 7, study_id = 3, monitor_letter_id = None, title = ''Missing signature'',
      description = None, category = CONSENT_ICF, severity = CRITICAL, status = NEW,
      assigned_to = None, created_by = 2, due_date = None,
      sla_deadline = Some (utc_datetime 2024 6 17 16 0 0), escalation_level = 0,
      resolved_at = None, verified_at = None, verified_by = None,
      created_at = utc_datetime 2024 6 7 16 0 0\<rparr>"

definition sample_db :: "action_item \<Rightarrow> db" where
  "sample_db item = \<lparr>items = [ai_id item \<mapsto> item], updates = []\<rparr>"

text \<open>The item a handler answers with, and the item it leaves in the database.\<close>

definition response_item :: "api_error + db \<times> action_item \<Rightarrow> action_item option" where
  "response_item r = (case r of Inl _ \<Rightarrow> None | Inr (d, item) \<Rightarrow> Some item)"

definition stored_item :: "api_error + db \<times> action_item \<Rightarrow> uuid \<Rightarrow> action_item option" where
  "stored_item r item_id = (case r of Inl _ \<Rightarrow> None | Inr (d, item) \<Rightarrow> items d item_id)"

text \<open>The body \<^verbatim>\<open>{"status": s}\<close> of a general update.\<close>

definition status_only :: "ActionItemStatus \<Rightarrow> ActionItemUpdateSchema" where
  "status_only s =
     \<lparr>u_title = None, u_description = None, u_category = None, u_severity = None,
      u_status = Some (Some s), u_assigned_to = None, u_due_date = None, u_comment = None\<rparr>"

text \<open>The sample item after it was done on 10 June at 09:00 and then reopened.\<close>

definition reopened_item :: action_item where
  "reopened_item =
     sample_item\<lparr>status := IN_PROGRESS, resolved_at := Some (utc_datetime 2024 6 10 9 0 0)\<rparr>"

text \<open>
  The holiday cache is private to the engine and is filled only by
  \<^verbatim>\<open>get_brazilian_holidays\<close>: every entry it holds is the set built for its year. An
  engine starts with the empty cache.
\<close>

definition cache_ok :: "holiday_cache \<Rightarrow> bool" where
  "cache_ok cache =
     (\<forall>year holidays. cache year = Some holidays \<longrightarrow> holidays = build_holidays year)"

text \<open>
  The thirteen holiday dates of a year as the specification lists them: eight fixed dates,
  then Easter minus 47 days, minus 46 days, minus 2 days, Easter Sunday, and Easter plus 60
  days.
\<close>

definition holiday_dates :: "int \<Rightarrow> date list" where
  "holiday_dates year =
     [mk_date year 1 1, mk_date year 4 21, mk_date year 5 1, mk_date year 9 7,
      mk_date year 10 12, mk_date year 11 2, mk_date year 11 15, mk_date year 12 25,
      easter year - 47, easter year - 46, easter year - 2, easter year, easter year + 60]"

text \<open>The deadline an engine call returns, when it returns one.\<close>

definition deadline_of :: "(py_error + datetime \<times> holiday_cache) option \<Rightarrow> datetime option" where
  "deadline_of r = (case r of Some (Inr (t, c)) \<Rightarrow> Some t | _ \<Rightarrow> None)"

text \<open>
  The holidays from day \<open>a\<close> to day \<open>b\<close>, for a range that lies in one year or
  crosses one New Year.
\<close>

definition holidays_between :: "date \<Rightarrow> date \<Rightarrow> date list" where
  "holidays_between a b =
     filter (\<lambda>h. a \<le> h \<and> h \<le> b) (holiday_dates (date_year a) @ holiday_dates (date_year b))"

text \<open>
  A minor item created on Monday 10 June 2024 at 16:00 UTC under a rule of 8 resolution
  hours: its deadline is Tuesday 11 June at 16:00, before the 40 escalation hours of its
  severity have passed.
\<close>

definition short_deadline_item :: action_item where
  "short_deadline_item =
     sample_item\<lparr>severity := MINOR, status := IN_PROGRESS,
                   created_at := utc_datetime 2024 6 10 16 0 0,
                   sla_deadline := Some (utc_datetime 2024 6 11 16 0 0)\<rparr>"

text \<open>The sample item in progress, stored with the escalation level 3 of an earlier update.\<close>

definition escalated_item :: action_item where
  "escalated_item = sample_item\<lparr>status := IN_PROGRESS, escalation_level := 3\<rparr>"

text \<open>
  The specification's compliance figure: of the items in scope that are closed and have a
  deadline, the share whose \<^verbatim>\<open>resolved_at\<close> is not after the deadline, times 100.
  \<open>study\<close> is the optional study filter of the query.
\<close>

definition in_scope :: "uuid option \<Rightarrow> action_item \<Rightarrow> bool" where
  "in_scope study r = (case study of None \<Rightarrow> True | Some sid \<Rightarrow> study_id r = sid)"

definition closed_with_deadline :: "uuid option \<Rightarrow> action_item list \<Rightarrow> action_item list" where
  "closed_with_deadline study rows =
     filter (\<lambda>r. in_scope study r \<and> \<not> is_open r \<and> sla_deadline r \<noteq> None) rows"

definition resolved_on_time :: "action_item \<Rightarrow> bool" where
  "resolved_on_time r =
     (case (resolved_at r, sla_deadline r) of
        (Some res, Some dl) \<Rightarrow> utc_instant res \<le> utc_instant dl
      | _ \<Rightarrow> False)"

definition exact_compliance :: "uuid option \<Rightarrow> action_item list \<Rightarrow> rat" where
  "exact_compliance study rows =
     of_nat (length (filter resolved_on_time (closed_with_deadline study rows)))
       / of_nat (length (closed_with_deadline study rows)) * 100"

text \<open>The sample item closed before its deadline of 17 June, and closed after it.\<close>

definition on_time_item :: action_item where
  "on_time_item = sample_item\<lparr>status := DONE, resolved_at := Some (utc_datetime 2024 6 14 12 0 0)\<rparr>"

definition late_item :: action_item where
  "late_item = sample_item\<lparr>status := VERIFIED, resolved_at := Some (utc_datetime 2024 6 20 12 0 0)\<rparr>"

text \<open>
  What one round of the burndown loop computes for a day: the items closed on that day,
  and the items created minus the items resolved by the end of it.
\<close>

definition closed_on :: "(datetime \<times> datetime option) list \<Rightarrow> date \<Rightarrow> int" where
  "closed_on rows day =
     (let day_start = \<lparr>dt_date = day, dt_hour = 0, dt_minute = 0, dt_second = 0,
                        dt_microsecond = 0, dt_tzinfo = Some 0\<rparr>;
          day_end = datetime_add day_start US_PER_DAY
      in sql_count (\<lambda>(c, r). case r of
                                Some t \<Rightarrow> utc_instant day_start \<le> utc_instant t
                                          \<and> utc_instant t < utc_instant day_end
                              | None \<Rightarrow> False) rows)"

definition open_on :: "(datetime \<times> datetime option) list \<Rightarrow> date \<Rightarrow> int" where
  "open_on rows day =
     (let day_start = \<lparr>dt_date = day, dt_hour = 0, dt_minute = 0, dt_second = 0,
                        dt_microsecond = 0, dt_tzinfo = Some 0\<rparr>;
          day_end = datetime_add day_start US_PER_DAY
      in sql_count (\<lambda>(c, r). utc_instant c \<le> utc_instant day_end) rows
         - sql_count (\<lambda>(c, r). case r of
                                  Some t \<Rightarrow> utc_instant t \<le> utc_instant day_end
                                | None \<Rightarrow> False) rows)"

section \<open>Facts about the handlers\<close>

lemma edit_field_fst:
  "fst (edit_field field eq render getattr setattr update item_id uid cmt st) =
     (case update of
        None \<Rightarrow> fst st
      | Some new \<Rightarrow> if opt_eq eq (getattr (fst st)) new then fst st else setattr new (fst st))"
  by (simp add: edit_field_def Let_def split: option.splits prod.splits)

lemma edit_field_keeps:
  assumes "\<And>v i. P (setattr v i) = P i"
  shows "P (fst (edit_field field eq render getattr setattr update item_id uid cmt st)) = P (fst st)"
  by (simp add: edit_field_fst assms split: option.splits)

lemma get_escalation_level_closed:
  "\<not> is_open item \<Longrightarrow> get_escalation_level clock item eh = 0"
  by (simp add: get_escalation_level_def split: option.splits)

lemma get_escalation_level_ignores_level:
  "get_escalation_level clock (item\<lparr>escalation_level := x\<rparr>) eh = get_escalation_level clock item eh"
  by (simp add: get_escalation_level_def is_open_def Let_def split: option.splits)

lemma update_action_item_fields:
  assumes "update_action_item d item_id item_in current_user clock engine_clock = Inr (d', item')"
    and "items d item_id = Some item"
  shows "status item' = (case u_status item_in of Some (Some s) \<Rightarrow> s | _ \<Rightarrow> status item)"
    and "resolved_at item' = (if u_status item_in = Some (Some DONE)
                              then Some (datetime_now_utc clock) else resolved_at item)"
    and "escalation_level item' = get_escalation_level engine_clock item' None"
    and "items d' item_id = Some item'"
proof -
  have nn: "u_status item_in \<noteq> Some None"
    using assms by (auto simp: update_action_item_def split: if_splits)
  have nn': "\<not> (u_title item_in = Some None \<or> u_category item_in = Some None
             \<or> u_severity item_in = Some None \<or> u_status item_in = Some None)"
    using assms by (auto simp: update_action_item_def split: if_splits)
  define st1 where "st1 = edit_field ''title'' (=) StrVal (\<lambda>i. Some (title i))
                         (\<lambda>v i. case v of Some x \<Rightarrow> i\<lparr>title := x\<rparr> | None \<Rightarrow> i)
                         (u_title item_in) item_id current_user (u_comment item_in) (item, d)"
  define st2 where "st2 = edit_field ''description'' (=) StrVal description
                         (\<lambda>v i. i\<lparr>description := v\<rparr>)
                         (u_description item_in) item_id current_user (u_comment item_in) st1"
  define st3 where "st3 = edit_field ''category'' (=) (\<lambda>c. StrVal (category_value c))
                         (\<lambda>i. Some (category i))
                         (\<lambda>v i. case v of Some x \<Rightarrow> i\<lparr>category := x\<rparr> | None \<Rightarrow> i)
                         (u_category item_in) item_id current_user (u_comment item_in) st2"
  define st4 where "st4 = edit_field ''severity'' (=) (\<lambda>c. StrVal (severity_value c))
                         (\<lambda>i. Some (severity i))
                         (\<lambda>v i. case v of Some x \<Rightarrow> i\<lparr>severity := x\<rparr> | None \<Rightarrow> i)
                         (u_severity item_in) item_id current_user (u_comment item_in) st3"
  define st5 where "st5 = edit_field ''status'' (=) (\<lambda>c. StrVal (status_value c))
                         (\<lambda>i. Some (status i))
                         (\<lambda>v i. case v of Some x \<Rightarrow> i\<lparr>status := x\<rparr> | None \<Rightarrow> i)
                         (u_status item_in) item_id current_user (u_comment item_in) st4"
  define st6 where "st6 = edit_field ''assigned_to'' (=) UuidVal assigned_to
                         (\<lambda>v i. i\<lparr>assigned_to := v\<rparr>)
                         (u_assigned_to item_in) item_id current_user (u_comment item_in) st5"
  define st7 where "st7 = edit_field ''due_date'' datetime_eq DatetimeVal due_date
                         (\<lambda>v i. i\<lparr>due_date := v\<rparr>)
                         (u_due_date item_in) item_id current_user (u_comment item_in) st6"
  define item8 where "item8 =
                   (case u_status item_in of
                      None \<Rightarrow> fst st7
                    | Some new_status \<Rightarrow>
                        if new_status = Some DONE then
                          (fst st7)\<lparr>resolved_at := Some (datetime_now_utc clock)\<rparr>
                        else if new_status = Some VERIFIED then
                          (fst st7)\<lparr>verified_at := Some (datetime_now_utc clock),
                                verified_by := Some current_user\<rparr>
                        else fst st7)"
  have res: "item' = item8\<lparr>escalation_level := get_escalation_level engine_clock item8 None\<rparr>"
    and dres: "d' = (snd st7)\<lparr>items := (items (snd st7))(item_id \<mapsto> item')\<rparr>"
    using assms nn'
    unfolding update_action_item_def st1_def st2_def st3_def st4_def st5_def st6_def st7_def item8_def
    by (auto simp add: Let_def case_prod_beta)
  have s4: "status (fst st4) = status item" "resolved_at (fst st4) = resolved_at item"
    unfolding st4_def st3_def st2_def st1_def
    by (simp_all add: edit_field_fst split: option.splits)
  have s5: "status (fst st5) = (case u_status item_in of Some (Some s) \<Rightarrow> s | _ \<Rightarrow> status item)"
    "resolved_at (fst st5) = resolved_at item"
    unfolding st5_def using nn s4
    by (auto simp add: edit_field_fst opt_eq_def split: option.splits)
  have s7: "status (fst st7) = (case u_status item_in of Some (Some s) \<Rightarrow> s | _ \<Rightarrow> status item)"
    "resolved_at (fst st7) = resolved_at item"
    unfolding st7_def st6_def using s5
    by (simp_all add: edit_field_fst split: option.splits)
  show "status item' = (case u_status item_in of Some (Some s) \<Rightarrow> s | _ \<Rightarrow> status item)"
    using s7 nn by (simp add: res item8_def split: option.splits)
  show "resolved_at item' = (if u_status item_in = Some (Some DONE)
                              then Some (datetime_now_utc clock) else resolved_at item)"
    using s7 nn by (simp add: res item8_def split: option.splits)
  show "items d' item_id = Some item'" by (simp add: dres)
  show "escalation_level item' = get_escalation_level engine_clock item' None"
    by (simp add: res get_escalation_level_ignores_level)
qed

lemma update_action_item_status_fields:
  assumes "update_action_item_status d item_id status_in current_user clock engine_clock = Inr (d', item')"
    and "items d item_id = Some item"
  shows "status item' = su_status status_in"
    and "resolved_at item' = (if su_status status_in = DONE
                              then Some (datetime_now_utc clock) else resolved_at item)"
    and "escalation_level item' = get_escalation_level engine_clock item' None"
    and "items d' item_id = Some item'"
  using assms
  by (auto simp: update_action_item_status_def Let_def get_escalation_level_ignores_level
           split: if_splits)

lemma update_action_item_succeeds:
  assumes "items d item_id = Some item"
    and "\<not> (u_title item_in = Some None \<or> u_category item_in = Some None
             \<or> u_severity item_in = Some None \<or> u_status item_in = Some None)"
  shows "succeeded (update_action_item d item_id item_in current_user clock engine_clock)"
  using assms by (simp add: update_action_item_def succeeded_def Let_def case_prod_beta)

lemma update_action_item_status_result:
  assumes "items d item_id = Some item"
  shows "(succeeded (update_action_item_status d item_id status_in current_user clock engine_clock)
            \<longleftrightarrow> su_status status_in \<in> set (dict_get valid_transitions (status item) []))
         \<and> (su_status status_in \<notin> set (dict_get valid_transitions (status item) [])
            \<longrightarrow> update_action_item_status d item_id status_in current_user clock engine_clock
                = Inl (HTTPException 400
                    (''Invalid status transition from '' @ status_value (status item)
                       @ '' to '' @ status_value (su_status status_in))))"
  using assms by (simp add: update_action_item_status_def succeeded_def Let_def)

lemma succeededE:
  assumes "succeeded r" obtains x where "r = Inr x"
  using assms by (cases r) (simp_all add: succeeded_def)

lemma datetime_now_sample: "datetime_now_utc (utc_instant (utc_datetime 2024 6 12 10 0 0)) = utc_datetime 2024 6 12 10 0 0"
  by (simp add: datetime_now_utc_def of_wall_us_def utc_instant_def utc_datetime_def wall_us_def mk_date_def
    days_before_year_def days_before_month_def DAYS_BEFORE_MONTH_def is_leap_def US_PER_DAY_def US_PER_SECOND_def Let_def)

section \<open>The status transition table\<close>

text \<open>
  C1, as the code has it. For an existing item, \<^verbatim>\<open>update_action_item_status\<close> succeeds
  exactly when the pair (current status, requested status) is one of the nine edges of the
  handler's table: the seven edges of the specification's table and, in addition,
  new to waiting_external and in_progress to new. Every other pair is answered
  with a 400 error whose detail names the current and the requested status.
\<close>

theorem transition_status_table:
  assumes "items d item_id = Some item"
  shows "(succeeded (update_action_item_status d item_id status_in current_user clock engine_clock)
            \<longleftrightarrow> (status item, su_status status_in) \<in> set
                 [(NEW, IN_PROGRESS), (NEW, WAITING_EXTERNAL),
                  (IN_PROGRESS, WAITING_EXTERNAL), (IN_PROGRESS, DONE), (IN_PROGRESS, NEW),
                  (WAITING_EXTERNAL, IN_PROGRESS), (WAITING_EXTERNAL, DONE),
                  (DONE, VERIFIED), (DONE, IN_PROGRESS)])
         \<and> (\<not> succeeded (update_action_item_status d item_id status_in current_user clock
                            engine_clock)
            \<longrightarrow> update_action_item_status d item_id status_in current_user clock engine_clock
                = Inl (HTTPException 400
                    (''Invalid status transition from '' @ status_value (status item)
                       @ '' to '' @ status_value (su_status status_in))))"
  using assms
  by (cases "status item"; cases "su_status status_in")
     (simp_all add: update_action_item_status_def succeeded_def valid_transitions_def
        dict_get_def Let_def)

theorem transition_status_table_witness:
  "succeeded (update_action_item_status (sample_db sample_item) 7
       \<lparr>su_status = IN_PROGRESS, su_comment = None\<rparr> 2 0 0)
   \<and> update_action_item_status (sample_db sample_item) 7
       \<lparr>su_status = DONE, su_comment = None\<rparr> 2 0 0
     = Inl (HTTPException 400 ''Invalid status transition from new to done'')"
proof -
  have h: "items (sample_db sample_item) 7 = Some sample_item"
    by (simp add: sample_db_def sample_item_def)
  have s: "status sample_item = NEW"
    by (simp add: sample_item_def)
  show ?thesis
    using transition_status_table [OF h, of "\<lparr>su_status = IN_PROGRESS, su_comment = None\<rparr>" 2 0 0]
      transition_status_table [OF h, of "\<lparr>su_status = DONE, su_comment = None\<rparr>" 2 0 0]
    by (simp add: s)
qed

text \<open>
  C1, as the specification states it, fails: new to waiting_external is not an edge of the
  specification's table, and the handler accepts it.
\<close>

theorem transition_status_table_counterexample:
  "succeeded (update_action_item_status (sample_db sample_item) 7
       \<lparr>su_status = WAITING_EXTERNAL, su_comment = None\<rparr> 2 0 0)
   \<and> (status sample_item, WAITING_EXTERNAL) \<notin> set spec_adjacency"
  by (simp add: update_action_item_status_def succeeded_def valid_transitions_def dict_get_def
      Let_def sample_db_def sample_item_def spec_adjacency_def)

section \<open>Status changes through the general update\<close>

text \<open>
  C2 at the failing input. The general update \<^verbatim>\<open>update_action_item\<close> with the body
  \<^verbatim>\<open>{"status": "verified"}\<close> on a new item answers with the item in status verified and
  stores it so, although new to verified is in no transition table and the status route
  rejects the same change: the general update never consults the table.
\<close>

theorem general_update_skips_transition_table:
  "map_option status
     (response_item (update_action_item (sample_db sample_item) 7 (status_only VERIFIED) 2
        (utc_instant (utc_datetime 2024 6 10 9 0 0)) (utc_instant (utc_datetime 2024 6 10 9 0 0))))
     = Some VERIFIED
   \<and> map_option status
       (stored_item (update_action_item (sample_db sample_item) 7 (status_only VERIFIED) 2
          (utc_instant (utc_datetime 2024 6 10 9 0 0)) (utc_instant (utc_datetime 2024 6 10 9 0 0))) 7)
     = Some VERIFIED
   \<and> status sample_item = NEW
   \<and> (NEW, VERIFIED) \<notin> set spec_adjacency
   \<and> update_action_item_status (sample_db sample_item) 7
       \<lparr>su_status = VERIFIED, su_comment = None\<rparr> 2
       (utc_instant (utc_datetime 2024 6 10 9 0 0)) (utc_instant (utc_datetime 2024 6 10 9 0 0))
     = Inl (HTTPException 400 ''Invalid status transition from new to verified'')"
proof -
  let ?c = "utc_instant (utc_datetime 2024 6 10 9 0 0)"
  let ?r = "update_action_item (sample_db sample_item) 7 (status_only VERIFIED) 2 ?c ?c"
  have h: "items (sample_db sample_item) 7 = Some sample_item"
    by (simp add: sample_db_def sample_item_def)
  have ok: "succeeded ?r"
    by (rule update_action_item_succeeds[OF h]) (simp add: status_only_def)
  then obtain d' item' where r: "?r = Inr (d', item')"
    by (metis succeededE surj_pair)
  have "status item' = VERIFIED" "items d' 7 = Some item'"
    using update_action_item_fields(1,4)[OF r h] by (simp_all add: status_only_def)
  then have a: "map_option status (response_item ?r) = Some VERIFIED"
    and b: "map_option status (stored_item ?r 7) = Some VERIFIED"
    by (simp_all add: r response_item_def stored_item_def)
  have c: "status sample_item = NEW \<and> (NEW, VERIFIED) \<notin> set spec_adjacency"
    by (simp add: sample_item_def spec_adjacency_def)
  have e: "update_action_item_status (sample_db sample_item) 7
       \<lparr>su_status = VERIFIED, su_comment = None\<rparr> 2 ?c ?c
     = Inl (HTTPException 400 ''Invalid status transition from new to verified'')"
    using update_action_item_status_result[OF h, of "\<lparr>su_status = VERIFIED, su_comment = None\<rparr>" 2 ?c ?c]
    by (simp add: sample_item_def valid_transitions_def dict_get_def)
  show ?thesis using a b c e by simp
qed

section \<open>The resolution timestamp\<close>

text \<open>
  C3, as the code has it. Whenever a request sets the status to done, through the status
  route or through the general update, \<^verbatim>\<open>resolved_at\<close> becomes the instant of the
  request, whether or not it was set before; a request that does not set the status to done
  leaves \<^verbatim>\<open>resolved_at\<close> as it was. So \<^verbatim>\<open>resolved_at\<close> records the latest time
  the item was set to done.
\<close>

theorem entering_done_overwrites_resolved_at:
  assumes "items d item_id = Some item"
  shows "(update_action_item_status d item_id status_in current_user clock engine_clock
            = Inr (d', item') \<longrightarrow>
          resolved_at item' = (if su_status status_in = DONE then Some (datetime_now_utc clock)
                               else resolved_at item))
       \<and> (update_action_item d item_id item_in current_user clock engine_clock
            = Inr (d'', item'') \<longrightarrow>
          resolved_at item'' = (if u_status item_in = Some (Some DONE)
                                then Some (datetime_now_utc clock) else resolved_at item))"
  using update_action_item_status_fields(2)[OF _ assms] update_action_item_fields(2)[OF _ assms]
  by blast

theorem entering_done_overwrites_resolved_at_witness:
  "map_option resolved_at
     (response_item (update_action_item_status (sample_db reopened_item) 7
        \<lparr>su_status = DONE, su_comment = None\<rparr> 2 5 5)) = Some (Some (datetime_now_utc 5))
   \<and> map_option resolved_at
       (response_item (update_action_item (sample_db reopened_item) 7 (status_only DONE) 2 5 5))
     = Some (Some (datetime_now_utc 5))"
proof -
  let ?r1 = "update_action_item_status (sample_db reopened_item) 7
               \<lparr>su_status = DONE, su_comment = None\<rparr> 2 5 5"
  let ?r2 = "update_action_item (sample_db reopened_item) 7 (status_only DONE) 2 5 5"
  have h: "items (sample_db reopened_item) 7 = Some reopened_item"
    by (simp add: sample_db_def reopened_item_def sample_item_def)
  have "succeeded ?r1"
    using update_action_item_status_result [OF h, of "\<lparr>su_status = DONE, su_comment = None\<rparr>" 2 5 5]
    by (simp add: reopened_item_def valid_transitions_def dict_get_def)
  then obtain d1 item1 where r1: "?r1 = Inr (d1, item1)"
    by (metis succeededE surj_pair)
  have "succeeded ?r2"
    by (rule update_action_item_succeeds [OF h]) (simp add: status_only_def)
  then obtain d2 item2 where r2: "?r2 = Inr (d2, item2)"
    by (metis succeededE surj_pair)
  have "resolved_at item1 = Some (datetime_now_utc 5)"
    and "resolved_at item2 = Some (datetime_now_utc 5)"
    using entering_done_overwrites_resolved_at
            [OF h, of "\<lparr>su_status = DONE, su_comment = None\<rparr>" 2 5 5 d1 item1
               "status_only DONE" d2 item2]
      r1 r2
    by (simp_all add: status_only_def)
  then show ?thesis by (simp add: r1 r2 response_item_def)
qed

text \<open>
  C3, as the specification states it, fails: an item resolved on 10 June and reopened, when it
  is set to done again on 12 June, gets the later instant as its \<^verbatim>\<open>resolved_at\<close>.
\<close>

theorem resolved_at_first_done_counterexample:
  "resolved_at reopened_item = Some (utc_datetime 2024 6 10 9 0 0)
   \<and> map_option resolved_at
       (response_item (update_action_item_status (sample_db reopened_item) 7
          \<lparr>su_status = DONE, su_comment = None\<rparr> 2
          (utc_instant (utc_datetime 2024 6 12 10 0 0)) (utc_instant (utc_datetime 2024 6 12 10 0 0))))
     = Some (Some (utc_datetime 2024 6 12 10 0 0))
   \<and> utc_datetime 2024 6 12 10 0 0 \<noteq> utc_datetime 2024 6 10 9 0 0"
proof -
  let ?c = "utc_instant (utc_datetime 2024 6 12 10 0 0)"
  let ?r = "update_action_item_status (sample_db reopened_item) 7
          \<lparr>su_status = DONE, su_comment = None\<rparr> 2 ?c ?c"
  have h: "items (sample_db reopened_item) 7 = Some reopened_item"
    by (simp add: sample_db_def reopened_item_def sample_item_def)
  have st: "status reopened_item = IN_PROGRESS"
    by (simp add: reopened_item_def)
  have ok: "succeeded ?r"
    using update_action_item_status_result[OF h, of "\<lparr>su_status = DONE, su_comment = None\<rparr>" 2 ?c ?c]
    by (simp add: st valid_transitions_def dict_get_def)
  then obtain d' item' where r: "?r = Inr (d', item')"
    by (metis succeededE surj_pair)
  have "resolved_at item' = Some (utc_datetime 2024 6 12 10 0 0)"
    using update_action_item_status_fields(2)[OF r h] by (simp add: datetime_now_sample)
  then have a: "map_option resolved_at (response_item ?r) = Some (Some (utc_datetime 2024 6 12 10 0 0))"
    by (simp add: r response_item_def)
  have b: "resolved_at reopened_item = Some (utc_datetime 2024 6 10 9 0 0)"
    by (simp add: reopened_item_def)
  have c: "utc_datetime 2024 6 12 10 0 0 \<noteq> utc_datetime 2024 6 10 9 0 0"
    by (simp add: utc_datetime_def)
  show ?thesis using a b c by simp
qed

section \<open>Instants and the escalation level\<close>

lemma split_seconds: "(s div 3600 * 60 + (s mod 3600) div 60) * 60 + s mod 60 = (s::int)"
proof -
  have a: "(s mod 3600) mod 60 = s mod 60"
    by (rule mod_mod_cancel) simp
  have b: "(s mod 3600) div 60 * 60 + s mod 60 = s mod 3600"
    using a by (metis div_mult_mod_eq)
  have "(s div 3600 * 60 + (s mod 3600) div 60) * 60 + s mod 60
          = s div 3600 * 3600 + ((s mod 3600) div 60 * 60 + s mod 60)"
    by (simp add: algebra_simps)
  also have "\<dots> = s div 3600 * 3600 + s mod 3600"
    by (simp only: b)
  also have "\<dots> = s"
    by simp
  finally show ?thesis .
qed

lemma wall_us_of_wall_us: "wall_us (of_wall_us w tz) = w"
proof -
  define s where "s = (w mod 86400000000) div 1000000"
  have s0: "0 \<le> s" unfolding s_def by (simp add: pos_imp_zdiv_nonneg_iff)
  have a: "(w mod 86400000000) mod 1000000 = w mod 1000000"
    by (rule mod_mod_cancel) simp
  have b: "s * 1000000 + w mod 1000000 = w mod 86400000000"
    unfolding s_def using a by (metis mult.commute mult_div_mod_eq)
  have "wall_us (of_wall_us w tz)
      = (w div 86400000000) * 86400000000
        + ((s div 3600 * 60 + (s mod 3600) div 60) * 60 + s mod 60) * 1000000
        + w mod 1000000"
    by (simp add: wall_us_def of_wall_us_def Let_def US_PER_DAY_def US_PER_SECOND_def s_def)
  also have "\<dots> = (w div 86400000000) * 86400000000 + (s * 1000000 + w mod 1000000)"
    using split_seconds[of s] by simp
  also have "\<dots> = w" using b by simp
  finally show ?thesis .
qed

lemma utc_instant_now: "utc_instant (datetime_now_utc clock) = clock"
  by (simp add: utc_instant_def datetime_now_utc_def wall_us_of_wall_us) (simp add: of_wall_us_def Let_def)

lemma dt_date_of_wall_us: "dt_date (of_wall_us w tz) = w div US_PER_DAY"
  by (simp add: of_wall_us_def Let_def)

lemma utc_instant_replace:
  "utc_instant (if dt_tzinfo t = None then t\<lparr>dt_tzinfo := Some 0\<rparr> else t) = utc_instant t"
  by (simp add: utc_instant_def wall_us_def)

lemma default_escalation_hours_pos:
  "0 < dict_get DEFAULT_ESCALATION_HOURS (severity_value sev) 40"
  by (cases sev) (simp_all add: dict_get_def DEFAULT_ESCALATION_HOURS_def)

lemma py_or_pos:
  assumes "case x of None \<Rightarrow> True | Some h \<Rightarrow> 0 \<le> h" and "0 < dflt"
  shows "0 < py_or x dflt"
  using assms by (auto simp: py_or_def split: option.splits)

lemma hours_quotient_floor:
  assumes "0 < h"
  shows "\<lfloor>total_seconds x / 3600 / of_int h\<rfloor> = x div (h * US_PER_HOUR)"
proof -
  have "total_seconds x / 3600 / of_int h = (of_int x :: rat) / of_int (h * US_PER_HOUR)"
    by (simp add: total_seconds_def US_PER_HOUR_def)
  then show ?thesis by (simp only: floor_divide_of_int_eq)
qed

lemma hours_quotient_ge:
  assumes "0 < h"
  shows "(of_int h \<le> total_seconds x / 3600) \<longleftrightarrow> h * US_PER_HOUR \<le> x"
proof -
  have "(of_int h \<le> total_seconds x / 3600) \<longleftrightarrow> ((of_int (h * US_PER_HOUR) :: rat) \<le> of_int x)"
    by (simp add: total_seconds_def US_PER_HOUR_def field_simps)
  then show ?thesis by (simp only: of_int_le_iff)
qed

lemma get_escalation_level_open:
  assumes "is_open item" and "sla_deadline item = Some deadline"
    and "hours = py_or escalation_hours
                   (dict_get DEFAULT_ESCALATION_HOURS (severity_value (severity item)) 40)"
    and "0 < hours"
  shows "get_escalation_level clock item escalation_hours =
           (if utc_instant deadline < clock
            then 2 + (clock - utc_instant deadline) div (hours * US_PER_HOUR)
            else if hours * US_PER_HOUR \<le> clock - utc_instant (created_at item) then 1 else 0)"
  using assms(1,2) hours_quotient_floor[OF assms(4)] hours_quotient_ge[OF assms(4)]
  unfolding get_escalation_level_def assms(3)[symmetric]
  by (simp add: Let_def utc_instant_now utc_instant_replace del: utc_instant_def)

lemma default_escalation_hours_table:
  "dict_get DEFAULT_ESCALATION_HOURS (severity_value sev) 40
     = (case sev of CRITICAL \<Rightarrow> 24 | MAJOR \<Rightarrow> 20 | MINOR \<Rightarrow> 40 | INFO \<Rightarrow> 80)"
  by (cases sev) (simp_all add: dict_get_def DEFAULT_ESCALATION_HOURS_def)

text \<open>
  C6, as the code has it. For an open item with a deadline and escalation hours that are not
  negative (the hours of the item's severity when none are given or 0 is given, else the
  given hours), the escalation level never decreases as the clock advances. While the
  deadline has not passed it is 0 as long as the time since \<^verbatim>\<open>created_at\<close> is below
  the escalation hours, and 1 from that threshold on; once the deadline has passed it is
  2 plus the number of full escalation periods overdue, whatever the time since creation, and
  one more period overdue adds exactly 1.
\<close>

theorem escalation_level_phases:
  assumes "is_open item" and "sla_deadline item = Some deadline"
    and "case escalation_hours of None \<Rightarrow> True | Some h \<Rightarrow> 0 \<le> h"
    and "now1 \<le> now2"
  shows "let default_hours = (case severity item of
                                CRITICAL \<Rightarrow> 24 | MAJOR \<Rightarrow> 20 | MINOR \<Rightarrow> 40 | INFO \<Rightarrow> 80);
             hours = (case escalation_hours of
                        None \<Rightarrow> default_hours
                      | Some h \<Rightarrow> if h = 0 then default_hours else h);
             period = hours * 3600000000;
             threshold = utc_instant (created_at item) + period;
             due = utc_instant deadline;
             level = (\<lambda>now. get_escalation_level now item escalation_hours)
         in level now1 \<le> level now2
          \<and> (now1 \<le> due \<and> now1 < threshold \<longrightarrow> level now1 = 0)
          \<and> (now1 \<le> due \<and> threshold \<le> now1 \<longrightarrow> level now1 = 1)
          \<and> (due < now1 \<longrightarrow> level now1 = 2 + (now1 - due) div period
                            \<and> level (now1 + period) = level now1 + 1)"
proof -
  define hours where "hours = py_or escalation_hours
                       (dict_get DEFAULT_ESCALATION_HOURS (severity_value (severity item)) 40)"
  define period where "period = hours * US_PER_HOUR"
  define due where "due = utc_instant deadline"
  define created where "created = utc_instant (created_at item)"
  have hours_eq: "(case escalation_hours of
                     None \<Rightarrow> (case severity item of
                                CRITICAL \<Rightarrow> 24 | MAJOR \<Rightarrow> 20 | MINOR \<Rightarrow> 40 | INFO \<Rightarrow> 80)
                   | Some h \<Rightarrow> if h = 0 then (case severity item of
                                CRITICAL \<Rightarrow> 24 | MAJOR \<Rightarrow> 20 | MINOR \<Rightarrow> 40 | INFO \<Rightarrow> 80)
                                else h) = hours"
    unfolding hours_def py_or_def default_escalation_hours_table by (rule refl)
  have period_eq: "hours * 3600000000 = period"
    by (simp add: period_def US_PER_HOUR_def)
  have hpos: "0 < hours"
    unfolding hours_def by (rule py_or_pos[OF assms(3) default_escalation_hours_pos])
  have ppos: "0 < period"
    using hpos by (simp add: period_def US_PER_HOUR_def)
  have lvl: "\<And>now. get_escalation_level now item escalation_hours =
           (if due < now then 2 + (now - due) div period
            else if period \<le> now - created then 1 else 0)"
    unfolding due_def period_def created_def
    by (rule get_escalation_level_open[OF assms(1,2) hours_def hpos])
  have nonneg: "\<And>now. due < now \<Longrightarrow> 0 \<le> (now - due) div period"
    using ppos by (simp add: pos_imp_zdiv_nonneg_iff)
  have mono: "get_escalation_level now1 item escalation_hours
                \<le> get_escalation_level now2 item escalation_hours"
  proof (cases "due < now1")
    case True
    then have "due < now2" using assms(4) by simp
    moreover have "(now1 - due) div period \<le> (now2 - due) div period"
      using assms(4) ppos by (intro zdiv_mono1) simp_all
    ultimately show ?thesis using True by (simp add: lvl)
  next
    case False
    then have l1: "get_escalation_level now1 item escalation_hours \<le> 1"
      by (simp add: lvl)
    show ?thesis
    proof (cases "due < now2")
      case True
      then have "2 \<le> get_escalation_level now2 item escalation_hours"
        using nonneg[OF True] by (simp add: lvl)
      then show ?thesis using l1 by linarith
    next
      case F2: False
      have "period \<le> now1 - created \<Longrightarrow> period \<le> now2 - created"
        using assms(4) by linarith
      then show ?thesis using False F2 by (simp add: lvl)
    qed
  qed
  have step: "due < now1 \<Longrightarrow> (now1 + period - due) div period = (now1 - due) div period + 1"
  proof -
    have "now1 + period - due = (now1 - due) + period" by simp
    then show ?thesis using ppos by (simp only: div_add_self2)
  qed
  have p0: "now1 \<le> due \<and> now1 < created + period
              \<longrightarrow> get_escalation_level now1 item escalation_hours = 0"
    by (simp add: lvl)
  have p1: "now1 \<le> due \<and> created + period \<le> now1
              \<longrightarrow> get_escalation_level now1 item escalation_hours = 1"
    by (simp add: lvl)
  have p2: "due < now1 \<longrightarrow>
              get_escalation_level now1 item escalation_hours = 2 + (now1 - due) div period
              \<and> get_escalation_level (now1 + period) item escalation_hours
                  = get_escalation_level now1 item escalation_hours + 1"
  proof
    assume a: "due < now1"
    then have b: "due < now1 + period" using ppos by simp
    show "get_escalation_level now1 item escalation_hours = 2 + (now1 - due) div period
              \<and> get_escalation_level (now1 + period) item escalation_hours
                  = get_escalation_level now1 item escalation_hours + 1"
      using a b step[OF a] by (simp only: lvl if_True) simp
  qed
  show ?thesis
    unfolding Let_def hours_eq period_eq due_def [symmetric] created_def [symmetric]
    using mono p0 p1 p2 by (intro conjI)
qed


theorem escalation_level_phases_witness:
  "get_escalation_level (utc_instant (utc_datetime 2024 6 8 15 0 0)) sample_item None = 0
   \<and> get_escalation_level (utc_instant (utc_datetime 2024 6 8 17 0 0)) sample_item None = 1
   \<and> get_escalation_level (utc_instant (utc_datetime 2024 6 19 17 0 0)) sample_item None = 4
   \<and> get_escalation_level (utc_instant (utc_datetime 2024 6 20 17 0 0)) sample_item None = 5
   \<and> get_escalation_level (utc_instant (utc_datetime 2024 6 8 5 0 0)) sample_item None = 0
   \<and> get_escalation_level (utc_instant (utc_datetime 2024 6 8 5 0 0)) sample_item (Some 12) = 1
   \<and> get_escalation_level (utc_instant (utc_datetime 2024 6 19 17 0 0)) sample_item (Some 12) = 6
   \<and> get_escalation_level (utc_instant (utc_datetime 2024 6 8 5 0 0)) sample_item (Some 0) = 0
   \<and> get_escalation_level (utc_instant (utc_datetime 2024 6 8 17 0 0)) sample_item (Some 0) = 1"
proof -
  have o: "is_open sample_item"
    by (simp add: is_open_def sample_item_def)
  have d: "sla_deadline sample_item = Some (utc_datetime 2024 6 17 16 0 0)"
    by (simp add: sample_item_def)
  have sev: "severity sample_item = CRITICAL"
    by (simp add: sample_item_def)
  have e: "case None :: int option of None \<Rightarrow> True | Some h \<Rightarrow> 0 \<le> h"
    and e12: "case Some (12 :: int) of None \<Rightarrow> True | Some h \<Rightarrow> 0 \<le> h"
    and e0: "case Some (0 :: int) of None \<Rightarrow> True | Some h \<Rightarrow> 0 \<le> h"
    by simp_all
  have c: "utc_instant (created_at sample_item) = 63853459200000000"
    by code_simp
  have te: "utc_instant (utc_datetime 2024 6 8 5 0 0) = 63853506000000000"
    and t0: "utc_instant (utc_datetime 2024 6 8 15 0 0) = 63853542000000000"
    and t1: "utc_instant (utc_datetime 2024 6 8 17 0 0) = 63853549200000000"
    and t2: "utc_instant (utc_datetime 2024 6 19 17 0 0) = 63854499600000000"
    and t3: "utc_instant (utc_datetime 2024 6 20 17 0 0) = 63854586000000000"
    and td: "utc_instant (utc_datetime 2024 6 17 16 0 0) = 63854323200000000"
    by code_simp+
  have a0: "get_escalation_level 63853542000000000 sample_item None = 0"
    using escalation_level_phases [OF o d e, of 63853542000000000 63853549200000000]
    by (simp add: Let_def sev c td)
  have a1: "get_escalation_level 63853549200000000 sample_item None = 1"
    using escalation_level_phases [OF o d e, of 63853549200000000 63854499600000000]
    by (simp add: Let_def sev c td)
  have a2: "get_escalation_level 63854499600000000 sample_item None = 4
            \<and> get_escalation_level 63854586000000000 sample_item None = 5"
    using escalation_level_phases [OF o d e, of 63854499600000000 63854499600000000]
    by (simp add: Let_def sev c td)
  have a3: "get_escalation_level 63853506000000000 sample_item None = 0"
    using escalation_level_phases [OF o d e, of 63853506000000000 63853506000000000]
    by (simp add: Let_def sev c td)
  have b1: "get_escalation_level 63853506000000000 sample_item (Some 12) = 1"
    using escalation_level_phases [OF o d e12, of 63853506000000000 63853506000000000]
    by (simp add: Let_def sev c td)
  have b2: "get_escalation_level 63854499600000000 sample_item (Some 12) = 6"
    using escalation_level_phases [OF o d e12, of 63854499600000000 63854499600000000]
    by (simp add: Let_def sev c td)
  have z0: "get_escalation_level 63853506000000000 sample_item (Some 0) = 0"
    using escalation_level_phases [OF o d e0, of 63853506000000000 63853506000000000]
    by (simp add: Let_def sev c td)
  have z1: "get_escalation_level 63853549200000000 sample_item (Some 0) = 1"
    using escalation_level_phases [OF o d e0, of 63853549200000000 63853549200000000]
    by (simp add: Let_def sev c td)
  show ?thesis using a0 a1 a2 a3 b1 b2 z0 z1 by (simp only: te t0 t1 t2 t3)
qed

text \<open>
  C6, as the specification states it, fails: it gives level 0 until the time since creation
  reaches the escalation hours. The minor item above gets the deadline 11 June 16:00 from the
  engine; at 17:00 that day 25 of its 40 escalation hours have passed, the deadline is one
  hour behind, and the level is 2.
\<close>

theorem escalation_level_phases_counterexample:
  "is_open short_deadline_item
   \<and> deadline_of (calculate_sla_deadline Map.empty (created_at short_deadline_item) MINOR (Some 8))
     = sla_deadline short_deadline_item
   \<and> utc_instant (utc_datetime 2024 6 11 17 0 0) - utc_instant (created_at short_deadline_item)
     < 40 * US_PER_HOUR
   \<and> get_escalation_level (utc_instant (utc_datetime 2024 6 11 17 0 0)) short_deadline_item None
     = 2"
  by code_simp

section \<open>Business days\<close>

lemma cache_ok_empty: "cache_ok Map.empty"
  by (simp add: cache_ok_def)

lemma get_brazilian_holidays_ok:
  assumes "cache_ok cache"
  shows "fst (get_brazilian_holidays cache year) = build_holidays year"
    and "cache_ok (snd (get_brazilian_holidays cache year))"
  using assms
  by (auto simp: get_brazilian_holidays_def cache_ok_def Let_def split: option.splits)

lemma build_holidays_eq: "build_holidays year = set (holiday_dates year)"
  by (auto simp: build_holidays_def holiday_dates_def Let_def)

lemma weekday_range: "0 \<le> weekday d \<and> weekday d < 7"
  by (simp add: weekday_def)

lemma is_business_day_ok:
  assumes "cache_ok cache"
  shows "fst (is_business_day cache d)
           = (weekday d < 5 \<and> d \<notin> build_holidays (date_year d))"
    and "cache_ok (snd (is_business_day cache d))"
  using assms get_brazilian_holidays_ok[OF assms, of "date_year d"]
  by (auto simp: is_business_day_def case_prod_beta Let_def)

text \<open>
  C8. With a cache that holds only what the engine put there, \<^verbatim>\<open>is_business_day\<close>
  answers false exactly for a Saturday, a Sunday, and the thirteen holiday dates of the date's
  year (eight fixed dates and five dates relative to that year's Easter; two of the thirteen
  may fall on the same day), and true for every other day; the cache it leaves is again sound.
\<close>

theorem is_business_day_calendar:
  assumes "cache_ok cache"
  shows "fst (is_business_day cache d)
           = (weekday d \<noteq> 5 \<and> weekday d \<noteq> 6 \<and> d \<notin> set (holiday_dates (date_year d)))
         \<and> cache_ok (snd (is_business_day cache d))"
proof -
  have "weekday d < 5 \<longleftrightarrow> weekday d \<noteq> 5 \<and> weekday d \<noteq> 6"
    using weekday_range[of d] by auto
  then show ?thesis
    using is_business_day_ok[OF assms, of d] by (simp add: build_holidays_eq)
qed

theorem is_business_day_calendar_witness:
  "fst (is_business_day Map.empty (mk_date 2024 5 30)) = False
   \<and> fst (is_business_day Map.empty (mk_date 2025 5 30)) = True
   \<and> fst (is_business_day Map.empty (mk_date 2025 6 19)) = False
   \<and> fst (is_business_day Map.empty (mk_date 2024 6 8)) = False
   \<and> fst (is_business_day Map.empty (mk_date 2024 6 10)) = True"
proof -
  have a: "(weekday (mk_date 2024 5 30) \<noteq> 5 \<and> weekday (mk_date 2024 5 30) \<noteq> 6
            \<and> mk_date 2024 5 30 \<notin> set (holiday_dates (date_year (mk_date 2024 5 30)))) = False"
    by code_simp
  have b: "(weekday (mk_date 2025 5 30) \<noteq> 5 \<and> weekday (mk_date 2025 5 30) \<noteq> 6
            \<and> mk_date 2025 5 30 \<notin> set (holiday_dates (date_year (mk_date 2025 5 30)))) = True"
    by code_simp
  have c: "(weekday (mk_date 2025 6 19) \<noteq> 5 \<and> weekday (mk_date 2025 6 19) \<noteq> 6
            \<and> mk_date 2025 6 19 \<notin> set (holiday_dates (date_year (mk_date 2025 6 19)))) = False"
    by code_simp
  have d: "(weekday (mk_date 2024 6 8) \<noteq> 5 \<and> weekday (mk_date 2024 6 8) \<noteq> 6
            \<and> mk_date 2024 6 8 \<notin> set (holiday_dates (date_year (mk_date 2024 6 8)))) = False"
    by code_simp
  have e: "(weekday (mk_date 2024 6 10) \<noteq> 5 \<and> weekday (mk_date 2024 6 10) \<noteq> 6
            \<and> mk_date 2024 6 10 \<notin> set (holiday_dates (date_year (mk_date 2024 6 10)))) = True"
    by code_simp
  show ?thesis
    using is_business_day_calendar [OF cache_ok_empty, of "mk_date 2024 5 30"]
      is_business_day_calendar [OF cache_ok_empty, of "mk_date 2025 5 30"]
      is_business_day_calendar [OF cache_ok_empty, of "mk_date 2025 6 19"]
      is_business_day_calendar [OF cache_ok_empty, of "mk_date 2024 6 8"]
      is_business_day_calendar [OF cache_ok_empty, of "mk_date 2024 6 10"]
    by (simp only: a b c d e)
qed

section \<open>The deadline of the Friday scenario\<close>

lemma add_full_days_step:
  assumes "cache_ok cache" and "days_added < full_days"
  shows "\<exists>cache'. cache_ok cache'
           \<and> add_full_days cache current_date days_added full_days
             = add_full_days cache' (current_date + 1)
                 (if weekday (current_date + 1) < 5
                     \<and> current_date + 1 \<notin> build_holidays (date_year (current_date + 1))
                  then days_added + 1 else days_added) full_days"
proof -
  let ?r = "is_business_day cache (current_date + 1)"
  have "add_full_days cache current_date days_added full_days
          = add_full_days (snd ?r) (current_date + 1)
              (if fst ?r then days_added + 1 else days_added) full_days"
    using assms(2) by (subst add_full_days.simps) (simp add: case_prod_beta Let_def)
  then show ?thesis
    using is_business_day_ok[OF assms(1), of "current_date + 1"] by auto
qed

lemma add_full_days_done:
  "\<not> days_added < full_days \<Longrightarrow>
     add_full_days cache current_date days_added full_days = Some (current_date, cache)"
  by (subst add_full_days.simps) simp

lemma weekday_shift: "weekday (d + k) = (weekday d + k) mod 7"
  by (simp add: weekday_def mod_simps algebra_simps)


lemma add_full_days_next:
  assumes "cache_ok cache" and "days_added < full_days"
    and "next_date = current_date + 1"
    and "days_added' = (if weekday next_date < 5
                           \<and> next_date \<notin> build_holidays (date_year next_date)
                        then days_added + 1 else days_added)"
  shows "\<exists>cache'. cache_ok cache'
           \<and> add_full_days cache current_date days_added full_days
             = add_full_days cache' next_date days_added' full_days"
  unfolding assms(3,4) by (rule add_full_days_step [OF assms(1,2)])

lemma friday_six_business_days:
  assumes ok: "cache_ok cache" and fri: "weekday d = 4"
    and nh: "\<forall>k\<in>{1..10}. d + k \<notin> build_holidays (date_year (d + k))"
  shows "\<exists>cache'. cache_ok cache' \<and> add_full_days cache d 0 6 = Some (d + 10, cache')"
proof -
  have wd: "\<And>k. weekday (d + k) = (4 + k) mod 7"
    using weekday_shift [of d] fri by simp
  have bd: "\<And>k. 1 \<le> k \<Longrightarrow> k \<le> 10 \<Longrightarrow>
              (weekday (d + k) < 5 \<and> d + k \<notin> build_holidays (date_year (d + k)))
                = ((4 + k) mod 7 < 5)"
    using nh wd by auto
  have "\<exists>c. cache_ok c
          \<and> add_full_days cache d 0 6 = add_full_days c (d + 1) 0 6"
    by (rule add_full_days_next [OF ok]) (simp_all add: bd)
  then obtain c1 where k1: "cache_ok c1"
    and e1: "add_full_days cache d 0 6 = add_full_days c1 (d + 1) 0 6"
    by blast
  have "\<exists>c. cache_ok c
          \<and> add_full_days c1 (d + 1) 0 6 = add_full_days c (d + 2) 0 6"
    by (rule add_full_days_next [OF k1]) (simp_all add: bd)
  then obtain c2 where k2: "cache_ok c2"
    and e2: "add_full_days c1 (d + 1) 0 6 = add_full_days c2 (d + 2) 0 6"
    by blast
  have "\<exists>c. cache_ok c
          \<and> add_full_days c2 (d + 2) 0 6 = add_full_days c (d + 3) 1 6"
    by (rule add_full_days_next [OF k2]) (simp_all add: bd)
  then obtain c3 where k3: "cache_ok c3"
    and e3: "add_full_days c2 (d + 2) 0 6 = add_full_days c3 (d + 3) 1 6"
    by blast
  have "\<exists>c. cache_ok c
          \<and> add_full_days c3 (d + 3) 1 6 = add_full_days c (d + 4) 2 6"
    by (rule add_full_days_next [OF k3]) (simp_all add: bd)
  then obtain c4 where k4: "cache_ok c4"
    and e4: "add_full_days c3 (d + 3) 1 6 = add_full_days c4 (d + 4) 2 6"
    by blast
  have "\<exists>c. cache_ok c
          \<and> add_full_days c4 (d + 4) 2 6 = add_full_days c (d + 5) 3 6"
    by (rule add_full_days_next [OF k4]) (simp_all add: bd)
  then obtain c5 where k5: "cache_ok c5"
    and e5: "add_full_days c4 (d + 4) 2 6 = add_full_days c5 (d + 5) 3 6"
    by blast
  have "\<exists>c. cache_ok c
          \<and> add_full_days c5 (d + 5) 3 6 = add_full_days c (d + 6) 4 6"
    by (rule add_full_days_next [OF k5]) (simp_all add: bd)
  then obtain c6 where k6: "cache_ok c6"
    and e6: "add_full_days c5 (d + 5) 3 6 = add_full_days c6 (d + 6) 4 6"
    by blast
  have "\<exists>c. cache_ok c
          \<and> add_full_days c6 (d + 6) 4 6 = add_full_days c (d + 7) 5 6"
    by (rule add_full_days_next [OF k6]) (simp_all add: bd)
  then obtain c7 where k7: "cache_ok c7"
    and e7: "add_full_days c6 (d + 6) 4 6 = add_full_days c7 (d + 7) 5 6"
    by blast
  have "\<exists>c. cache_ok c
          \<and> add_full_days c7 (d + 7) 5 6 = add_full_days c (d + 8) 5 6"
    by (rule add_full_days_next [OF k7]) (simp_all add: bd)
  then obtain c8 where k8: "cache_ok c8"
    and e8: "add_full_days c7 (d + 7) 5 6 = add_full_days c8 (d + 8) 5 6"
    by blast
  have "\<exists>c. cache_ok c
          \<and> add_full_days c8 (d + 8) 5 6 = add_full_days c (d + 9) 5 6"
    by (rule add_full_days_next [OF k8]) (simp_all add: bd)
  then obtain c9 where k9: "cache_ok c9"
    and e9: "add_full_days c8 (d + 8) 5 6 = add_full_days c9 (d + 9) 5 6"
    by blast
  have "\<exists>c. cache_ok c
          \<and> add_full_days c9 (d + 9) 5 6 = add_full_days c (d + 10) 6 6"
    by (rule add_full_days_next [OF k9]) (simp_all add: bd)
  then obtain c10 where k10: "cache_ok c10"
    and e10: "add_full_days c9 (d + 9) 5 6 = add_full_days c10 (d + 10) 6 6"
    by blast
  have "add_full_days c10 (d + 10) 6 6 = Some (d + 10, c10)"
    by (rule add_full_days_done) simp
  then have "add_full_days cache d 0 6 = Some (d + 10, c10)"
    by (simp only: e1 e2 e3 e4 e5 e6 e7 e8 e9 e10)
  then show ?thesis using k10 by blast
qed



lemma of_wall_us_at_16:
  "of_wall_us (wall_us \<lparr>dt_date = d, dt_hour = 16, dt_minute = 0, dt_second = 0,
                          dt_microsecond = 0, dt_tzinfo = tz\<rparr> + 0) tz
     = \<lparr>dt_date = d, dt_hour = 16, dt_minute = 0, dt_second = 0,
        dt_microsecond = 0, dt_tzinfo = tz\<rparr>"
  by (simp add: of_wall_us_def wall_us_def US_PER_DAY_def US_PER_SECOND_def Let_def)

lemma friday_deadline:
  assumes ok: "cache_ok cache" and fri: "weekday (dt_date created) = 4"
    and at: "dt_hour created = 16" "dt_minute created = 0" "dt_second created = 0"
    and nh: "\<forall>k\<in>{1..10}. dt_date created + k
                \<notin> build_holidays (date_year (dt_date created + k))"
  shows "\<exists>cache'. cache_ok cache'
           \<and> calculate_sla_deadline cache created CRITICAL None
             = Some (Inr (\<lparr>dt_date = dt_date created + 10, dt_hour = 16, dt_minute = 0,
                           dt_second = 0, dt_microsecond = 0,
                           dt_tzinfo = (if dt_tzinfo created = None then Some 0
                                        else dt_tzinfo created)\<rparr>, cache'))"
proof -
  obtain cache' where c: "cache_ok cache'"
    and a: "add_full_days cache (dt_date created) 0 6 = Some (dt_date created + 10, cache')"
    using friday_six_business_days [OF ok fri nh] by blast
  have h: "py_or None (dict_get DEFAULT_SLA_HOURS (severity_value CRITICAL) 80) = 48"
    by (simp add: py_or_def dict_get_def DEFAULT_SLA_HOURS_def)
  have "calculate_sla_deadline cache created CRITICAL None
          = Some (Inr (\<lparr>dt_date = dt_date created + 10, dt_hour = 16, dt_minute = 0,
                           dt_second = 0, dt_microsecond = 0,
                           dt_tzinfo = (if dt_tzinfo created = None then Some 0
                                        else dt_tzinfo created)\<rparr>, cache'))"
    unfolding calculate_sla_deadline_def h
    by (simp add: add_business_hours_def Let_def a at datetime_add_def US_PER_HOUR_def
          of_wall_us_at_16 [simplified])
  then show ?thesis using c by blast
qed



text \<open>
  C4, as the code has it. For an item created on a Friday at 16:00 with the 48-hour critical
  SLA and no holiday among the ten following days, \<^verbatim>\<open>calculate_sla_deadline\<close> returns
  16:00 on the Monday ten days later: 48 hours are six business days of eight hours, counted
  from the day after the creation date over two weekends.
\<close>

theorem friday_critical_deadline:
  assumes "cache_ok cache" and "weekday (dt_date created) = 4"
    and "dt_hour created = 16" and "dt_minute created = 0" and "dt_second created = 0"
    and "\<forall>k\<in>{1..10}. dt_date created + k
            \<notin> build_holidays (date_year (dt_date created + k))"
  shows "deadline_of (calculate_sla_deadline cache created CRITICAL None)
           = Some \<lparr>dt_date = dt_date created + 10, dt_hour = 16, dt_minute = 0,
                   dt_second = 0, dt_microsecond = 0,
                   dt_tzinfo = (if dt_tzinfo created = None then Some 0
                                else dt_tzinfo created)\<rparr>
         \<and> weekday (dt_date created + 10) = 0"
proof -
  obtain cache' where
    "calculate_sla_deadline cache created CRITICAL None
       = Some (Inr (\<lparr>dt_date = dt_date created + 10, dt_hour = 16, dt_minute = 0,
                     dt_second = 0, dt_microsecond = 0,
                     dt_tzinfo = (if dt_tzinfo created = None then Some 0
                                  else dt_tzinfo created)\<rparr>, cache'))"
    using friday_deadline [OF assms] by blast
  moreover have "weekday (dt_date created + 10) = 0"
    using weekday_shift [of "dt_date created" 10] assms(2) by simp
  ultimately show ?thesis by (simp add: deadline_of_def)
qed

theorem friday_critical_deadline_witness:
  "deadline_of (calculate_sla_deadline Map.empty (utc_datetime 2024 6 7 16 0 0) CRITICAL None)
     = Some (utc_datetime 2024 6 17 16 0 0)
   \<and> weekday (mk_date 2024 6 17) = 0"
proof -
  let ?t = "utc_datetime 2024 6 7 16 0 0"
  have d: "dt_date ?t = 739044"
    by code_simp
  have fri: "weekday (dt_date ?t) = 4"
    by code_simp
  have at: "dt_hour ?t = 16" "dt_minute ?t = 0" "dt_second ?t = 0"
    by (simp_all add: utc_datetime_def)
  have f: "739045 \<notin> build_holidays (date_year 739045)"
      "739046 \<notin> build_holidays (date_year 739046)"
      "739047 \<notin> build_holidays (date_year 739047)"
      "739048 \<notin> build_holidays (date_year 739048)"
      "739049 \<notin> build_holidays (date_year 739049)"
      "739050 \<notin> build_holidays (date_year 739050)"
      "739051 \<notin> build_holidays (date_year 739051)"
      "739052 \<notin> build_holidays (date_year 739052)"
      "739053 \<notin> build_holidays (date_year 739053)"
      "739054 \<notin> build_holidays (date_year 739054)"
    by code_simp+
  have nh: "\<forall>k\<in>{1..10}. dt_date ?t + k \<notin> build_holidays (date_year (dt_date ?t + k))"
  proof
    fix k :: int
    assume "k \<in> {1..10}"
    then have "k = 1 \<or> k = 2 \<or> k = 3 \<or> k = 4 \<or> k = 5 \<or> k = 6 \<or> k = 7 \<or> k = 8
                 \<or> k = 9 \<or> k = 10"
      by (simp only: atLeastAtMost_iff) arith
    then show "dt_date ?t + k \<notin> build_holidays (date_year (dt_date ?t + k))"
      unfolding d using f by auto
  qed
  have r: "\<lparr>dt_date = dt_date ?t + 10, dt_hour = 16, dt_minute = 0,
                   dt_second = 0, dt_microsecond = 0,
                   dt_tzinfo = (if dt_tzinfo ?t = None then Some 0
                                else dt_tzinfo ?t)\<rparr> = utc_datetime 2024 6 17 16 0 0"
    by code_simp
  have m: "mk_date 2024 6 17 = dt_date ?t + 10"
    by code_simp
  show ?thesis
    using friday_critical_deadline [OF cache_ok_empty fri at nh]
    by (simp only: r m) 
qed

text \<open>
  C4, as the specification states it, fails: for Friday 7 June 2024 at 16:00, with no holiday
  from 3 to 17 June, the deadline falls on Monday 17 June and not on Thursday 13 June.
\<close>

theorem friday_critical_deadline_counterexample:
  "map_option dt_date
     (deadline_of (calculate_sla_deadline Map.empty (utc_datetime 2024 6 7 16 0 0) CRITICAL None))
     = Some (mk_date 2024 6 17)
   \<and> holidays_between (mk_date 2024 6 3) (mk_date 2024 6 17) = []
   \<and> weekday (mk_date 2024 6 7) = 4
   \<and> weekday (mk_date 2024 6 13) = 3
   \<and> weekday (mk_date 2024 6 17) = 0
   \<and> mk_date 2024 6 17 \<noteq> mk_date 2024 6 13"
  by code_simp

section \<open>The resolution-hours override\<close>

text \<open>
  C5 at the failing input. An override of 0 hours is present and is not used:
  \<^verbatim>\<open>resolution_hours or default\<close> takes 0 for absent, so the call answers as the call
  without an override does. For the critical item of Friday 7 June 2024 at 16:00 that is the
  48-hour deadline of 17 June, where 0 effective hours give the creation instant itself.
\<close>

theorem zero_override_uses_default:
  "calculate_sla_deadline cache created sev (Some 0)
     = calculate_sla_deadline cache created sev None
   \<and> deadline_of (calculate_sla_deadline Map.empty (utc_datetime 2024 6 7 16 0 0) CRITICAL (Some 0))
     = Some (utc_datetime 2024 6 17 16 0 0)
   \<and> deadline_of (add_business_hours Map.empty (utc_datetime 2024 6 7 16 0 0) 0 8)
     = Some (utc_datetime 2024 6 7 16 0 0)"
proof -
  have a: "calculate_sla_deadline cache created sev (Some 0)
             = calculate_sla_deadline cache created sev None"
    by (simp add: calculate_sla_deadline_def py_or_def)
  have b: "deadline_of (calculate_sla_deadline Map.empty (utc_datetime 2024 6 7 16 0 0) CRITICAL (Some 0))
             = Some (utc_datetime 2024 6 17 16 0 0)"
    by code_simp
  have c: "deadline_of (add_business_hours Map.empty (utc_datetime 2024 6 7 16 0 0) 0 8)
             = Some (utc_datetime 2024 6 7 16 0 0)"
    by code_simp
  show ?thesis using a b c by (intro conjI)
qed

section \<open>Closing an item resets its escalation level\<close>

text \<open>
  C10. A status transition of an existing item along an edge that closes it (in_progress or
  waiting_external to done, done to verified) succeeds, and the item it answers with and
  stores has the requested status and escalation level 0, whatever level was stored before
  and whatever the clock; and whenever a status transition to done or verified succeeds, the
  item has escalation level 0. The handler recomputes the level after it has assigned the
  status, and the engine answers 0 for an item that is not open.
\<close>

theorem closing_resets_escalation_level:
  assumes "items d item_id = Some item"
  shows "((status item, su_status status_in)
            \<in> set [(IN_PROGRESS, DONE), (WAITING_EXTERNAL, DONE), (DONE, VERIFIED)] \<longrightarrow>
          succeeded (update_action_item_status d item_id status_in current_user clock engine_clock)
          \<and> map_option escalation_level
                (response_item (update_action_item_status d item_id status_in current_user clock
                                  engine_clock)) = Some 0
          \<and> map_option escalation_level
                (stored_item (update_action_item_status d item_id status_in current_user clock
                                engine_clock) item_id) = Some 0
          \<and> map_option status
                (stored_item (update_action_item_status d item_id status_in current_user clock
                                engine_clock) item_id) = Some (su_status status_in))
       \<and> (update_action_item_status d item_id status_in current_user clock engine_clock
             = Inr (d', item')
           \<and> (su_status status_in = DONE \<or> su_status status_in = VERIFIED) \<longrightarrow>
           escalation_level item' = 0 \<and> items d' item_id = Some item'
           \<and> status item' = su_status status_in)"
proof -
  let ?r = "update_action_item_status d item_id status_in current_user clock engine_clock"
  have closing: "\<And>d' item'. ?r = Inr (d', item') \<Longrightarrow>
                   su_status status_in = DONE \<or> su_status status_in = VERIFIED \<Longrightarrow>
                   escalation_level item' = 0 \<and> items d' item_id = Some item'
                   \<and> status item' = su_status status_in"
  proof -
    fix d' item'
    assume r: "?r = Inr (d', item')"
      and t: "su_status status_in = DONE \<or> su_status status_in = VERIFIED"
    have s: "status item' = su_status status_in"
      and e: "escalation_level item' = get_escalation_level engine_clock item' None"
      and i: "items d' item_id = Some item'"
      using update_action_item_status_fields(1,3,4)[OF r assms] by simp_all
    have "\<not> is_open item'" using s t by (auto simp: is_open_def)
    then show "escalation_level item' = 0 \<and> items d' item_id = Some item'
                 \<and> status item' = su_status status_in"
      using s e i by (simp add: get_escalation_level_closed)
  qed
  have edges: "(status item, su_status status_in)
                 \<in> set [(IN_PROGRESS, DONE), (WAITING_EXTERNAL, DONE), (DONE, VERIFIED)] \<longrightarrow>
               succeeded ?r \<and> map_option escalation_level (response_item ?r) = Some 0
               \<and> map_option escalation_level (stored_item ?r item_id) = Some 0
               \<and> map_option status (stored_item ?r item_id) = Some (su_status status_in)"
  proof
    assume a: "(status item, su_status status_in)
                 \<in> set [(IN_PROGRESS, DONE), (WAITING_EXTERNAL, DONE), (DONE, VERIFIED)]"
    then have t: "su_status status_in = DONE \<or> su_status status_in = VERIFIED"
      by auto
    have "su_status status_in \<in> set (dict_get valid_transitions (status item) [])"
      using a by (auto simp: valid_transitions_def dict_get_def)
    then have ok: "succeeded ?r"
      using update_action_item_status_result [OF assms, of status_in current_user clock engine_clock]
      by simp
    then obtain d1 item1 where r: "?r = Inr (d1, item1)"
      by (metis succeededE surj_pair)
    show "succeeded ?r \<and> map_option escalation_level (response_item ?r) = Some 0
               \<and> map_option escalation_level (stored_item ?r item_id) = Some 0
               \<and> map_option status (stored_item ?r item_id) = Some (su_status status_in)"
      using ok closing [OF r t] by (simp add: r response_item_def stored_item_def)
  qed
  show ?thesis using edges closing by blast
qed

theorem closing_resets_escalation_level_witness:
  "escalation_level escalated_item = 3
   \<and> get_escalation_level (utc_instant (utc_datetime 2024 6 19 17 0 0)) escalated_item None = 4
   \<and> succeeded (update_action_item_status (sample_db escalated_item) 7
          \<lparr>su_status = DONE, su_comment = None\<rparr> 2
          (utc_instant (utc_datetime 2024 6 19 17 0 0)) (utc_instant (utc_datetime 2024 6 19 17 0 0)))
   \<and> map_option escalation_level
       (response_item (update_action_item_status (sample_db escalated_item) 7
          \<lparr>su_status = DONE, su_comment = None\<rparr> 2
          (utc_instant (utc_datetime 2024 6 19 17 0 0)) (utc_instant (utc_datetime 2024 6 19 17 0 0))))
     = Some 0
   \<and> map_option escalation_level
       (stored_item (update_action_item_status (sample_db escalated_item) 7
          \<lparr>su_status = DONE, su_comment = None\<rparr> 2
          (utc_instant (utc_datetime 2024 6 19 17 0 0)) (utc_instant (utc_datetime 2024 6 19 17 0 0))) 7)
     = Some 0"
proof -
  let ?c = "utc_instant (utc_datetime 2024 6 19 17 0 0)"
  have h: "items (sample_db escalated_item) 7 = Some escalated_item"
    by (simp add: sample_db_def escalated_item_def sample_item_def)
  have s: "status escalated_item = IN_PROGRESS"
    by (simp add: escalated_item_def)
  have l: "escalation_level escalated_item = 3"
    by (simp add: escalated_item_def)
  have g: "get_escalation_level ?c escalated_item None = 4"
    by code_simp
  show ?thesis
    using closing_resets_escalation_level
            [OF h, of "\<lparr>su_status = DONE, su_comment = None\<rparr>" 2 ?c ?c] l g
    by (simp add: s)
qed

section \<open>The SLA compliance percentage\<close>

lemma py_round1_close: "\<bar>py_round1 x - x\<bar> \<le> 1 / 20"
proof -
  define y where "y = x * 10"
  define f where "f = \<lfloor>y\<rfloor>"
  define k where "k = (if y - of_int f < 1 / 2 then f else if y - of_int f > 1 / 2 then f + 1
                       else if even f then f else f + 1)"
  have fb: "of_int f \<le> y" "y < of_int f + 1"
    unfolding f_def by linarith+
  have half: "\<bar>of_int k - y\<bar> \<le> 1 / 2"
    unfolding k_def using fb by auto
  have e1: "py_round1 x = of_int k / 10"
    by (simp add: py_round1_def Let_def k_def f_def y_def)
  have e2: "x = y / 10"
    by (simp add: y_def)
  have "py_round1 x - x = of_int k / 10 - y / 10"
    by (simp only: e1 e2 [symmetric])
  then have "py_round1 x - x = (of_int k - y) / 10"
    by (simp only: diff_divide_distrib)
  then have "\<bar>py_round1 x - x\<bar> = \<bar>of_int k - y\<bar> / 10"
    by (simp only: abs_divide)
  also have "\<dots> \<le> (1 / 2) / 10"
    using half by (rule divide_right_mono) simp
  finally show ?thesis by simp
qed

lemma py_round1_is_tenths: "\<exists>n::int. py_round1 x = of_int n / 10"
  by (simp add: py_round1_def Let_def)

lemma rounds_to_tenth_py_round1: "rounds_to_tenth py_round1"
  unfolding rounds_to_tenth_def using py_round1_close py_round1_is_tenths by blast

lemma rounds_to_tenth_close:
  "rounds_to_tenth round1 \<Longrightarrow> \<bar>round1 x - x\<bar> \<le> 1 / 20"
  by (simp add: rounds_to_tenth_def)

lemma rounds_to_tenth_tenths:
  "rounds_to_tenth round1 \<Longrightarrow> \<exists>n::int. round1 x = of_int n / 10"
  by (simp add: rounds_to_tenth_def)

lemma rounds_to_tenth_fixes_tenths:
  assumes "rounds_to_tenth round1"
  shows "round1 (of_int n / 10) = of_int n / 10"
proof -
  obtain m :: int where m: "round1 (of_int n / 10) = of_int m / 10"
    using rounds_to_tenth_tenths [OF assms] by blast
  have "\<bar>(of_int m :: rat) / 10 - of_int n / 10\<bar> \<le> 1 / 20"
    using rounds_to_tenth_close [OF assms, of "of_int n / 10"] by (simp only: m)
  then have "\<bar>(of_int (m - n) :: rat)\<bar> \<le> 1 / 2"
    by (simp add: abs_le_iff field_simps)
  then have "\<bar>(of_int (m - n) :: rat)\<bar> < of_int 1"
    by simp
  then have "\<bar>m - n\<bar> < 1"
    by (simp only: of_int_abs [symmetric] of_int_less_iff)
  then have "m = n" by simp
  then show ?thesis by (simp add: m)
qed

lemma get_stats_compliance:
  "st_sla_compliance_percentage (get_stats round1 rows clock study) =
     (if closed_with_deadline study rows = [] then round1 100
      else round1 (exact_compliance study rows))"
proof -
  have base: "(\<lambda>r. case study of Some sid \<Rightarrow> study_id r = sid | None \<Rightarrow> True) = in_scope study"
    by (auto simp: in_scope_def fun_eq_iff split: option.splits)
  have den: "sql_count (\<lambda>r. in_scope study r \<and> status r \<in> set [DONE, VERIFIED]
                         \<and> sla_deadline r \<noteq> None) rows
               = int (length (closed_with_deadline study rows))"
    by (simp add: sql_count_def closed_with_deadline_def is_open_def)
  have "\<And>r. (in_scope study r \<and> status r \<in> set [DONE, VERIFIED]
                \<and> (case (sla_deadline r, resolved_at r) of
                      (Some dl, Some res) \<Rightarrow> utc_instant res \<le> utc_instant dl
                    | _ \<Rightarrow> False))
             = ((in_scope study r \<and> \<not> is_open r \<and> sla_deadline r \<noteq> None)
                \<and> resolved_on_time r)"
    by (auto simp: resolved_on_time_def is_open_def split: option.splits)
  then have num: "sql_count (\<lambda>r. in_scope study r \<and> status r \<in> set [DONE, VERIFIED]
                         \<and> (case (sla_deadline r, resolved_at r) of
                               (Some dl, Some res) \<Rightarrow> utc_instant res \<le> utc_instant dl
                             | _ \<Rightarrow> False)) rows
               = int (length (filter resolved_on_time (closed_with_deadline study rows)))"
    by (simp add: sql_count_def closed_with_deadline_def)
  show ?thesis
    unfolding get_stats_def Let_def base
    by (simp only: stats.simps den num) (simp add: exact_compliance_def)
qed

text \<open>
  C7, as the code has it. With any rounding to one decimal place, the compliance percentage
  of \<^verbatim>\<open>get_stats\<close> is 100 when no closed item with a deadline is in scope; otherwise
  it is the specification's ratio times 100 rounded to one decimal place: a number of one
  decimal that differs from the exact figure by at most 0.05, and the exact figure itself
  whenever that has at most one decimal. No case is an error.
\<close>

theorem sla_compliance_rounded:
  assumes "rounds_to_tenth round1"
  shows "(closed_with_deadline study rows = [] \<longrightarrow>
            st_sla_compliance_percentage (get_stats round1 rows clock study) = 100)
       \<and> (closed_with_deadline study rows \<noteq> [] \<longrightarrow>
            st_sla_compliance_percentage (get_stats round1 rows clock study)
              = round1 (exact_compliance study rows)
            \<and> (\<exists>n::int. st_sla_compliance_percentage (get_stats round1 rows clock study)
                          = of_int n / 10)
            \<and> \<bar>st_sla_compliance_percentage (get_stats round1 rows clock study)
                  - exact_compliance study rows\<bar> \<le> 1 / 20
            \<and> (\<forall>n::int. exact_compliance study rows = of_int n / 10 \<longrightarrow>
                  st_sla_compliance_percentage (get_stats round1 rows clock study)
                    = exact_compliance study rows))"
proof (cases "closed_with_deadline study rows = []")
  case True
  have "round1 100 = 100"
    using rounds_to_tenth_fixes_tenths [OF assms, of 1000] by simp
  then show ?thesis using True by (simp only: get_stats_compliance if_True) simp
next
  case False
  have r: "st_sla_compliance_percentage (get_stats round1 rows clock study)
             = round1 (exact_compliance study rows)"
    using False by (simp only: get_stats_compliance if_False)
  have a: "\<bar>round1 (exact_compliance study rows) - exact_compliance study rows\<bar> \<le> 1 / 20"
    by (rule rounds_to_tenth_close [OF assms])
  have t: "\<exists>n::int. round1 (exact_compliance study rows) = of_int n / 10"
    by (rule rounds_to_tenth_tenths [OF assms])
  have b: "\<forall>n::int. exact_compliance study rows = of_int n / 10 \<longrightarrow>
             round1 (exact_compliance study rows) = exact_compliance study rows"
  proof (intro allI impI)
    fix n :: int
    assume h: "exact_compliance study rows = of_int n / 10"
    show "round1 (exact_compliance study rows) = exact_compliance study rows"
      by (simp only: h rounds_to_tenth_fixes_tenths [OF assms])
  qed
  show ?thesis
    unfolding r using False a t b by blast
qed

theorem sla_compliance_rounded_witness:
  "st_sla_compliance_percentage (get_stats py_round1 [] 0 None) = 100
   \<and> exact_compliance None [on_time_item, on_time_item, late_item, on_time_item] = 75
   \<and> st_sla_compliance_percentage
       (get_stats py_round1 [on_time_item, on_time_item, late_item, on_time_item] 0 None) = 75
   \<and> exact_compliance None [on_time_item, late_item, late_item] = 100 / 3
   \<and> st_sla_compliance_percentage
       (get_stats py_round1 [on_time_item, late_item, late_item] 0 None) = 333 / 10"
proof -
  let ?rows = "[on_time_item, on_time_item, late_item, on_time_item]"
  let ?thirds = "[on_time_item, late_item, late_item]"
  have e: "exact_compliance None ?rows = 75"
    by code_simp
  have n: "closed_with_deadline None ?rows \<noteq> []"
    by code_simp
  have t: "exact_compliance None ?rows = of_int 750 / 10"
    using e by simp
  have z: "closed_with_deadline None [] = []"
    by (simp add: closed_with_deadline_def)
  have e3: "exact_compliance None ?thirds = 100 / 3"
    by code_simp
  have n3: "closed_with_deadline None ?thirds \<noteq> []"
    by code_simp
  have r3: "py_round1 (100 / 3) = 333 / 10"
    by code_simp
  have a: "st_sla_compliance_percentage (get_stats py_round1 [] 0 None) = 100"
    using sla_compliance_rounded [OF rounds_to_tenth_py_round1, of None "[]" 0] z by blast
  have b: "st_sla_compliance_percentage (get_stats py_round1 ?rows 0 None) = 75"
    using sla_compliance_rounded [OF rounds_to_tenth_py_round1, of None ?rows 0] n t e
    by metis
  have c: "st_sla_compliance_percentage (get_stats py_round1 ?thirds 0 None) = 333 / 10"
    using sla_compliance_rounded [OF rounds_to_tenth_py_round1, of None ?thirds 0] n3
    by (simp only: e3 r3) simp
  show ?thesis using a b c e e3 by (intro conjI)
qed

text \<open>
  C7, as the specification states it, fails: with one of three closed items on time the
  answer is 33.3, not 100/3.
\<close>

theorem sla_compliance_exact_counterexample:
  "st_sla_compliance_percentage
     (get_stats py_round1 [on_time_item, late_item, late_item] 0 None) = 333 / 10
   \<and> length (closed_with_deadline None [on_time_item, late_item, late_item]) = 3
   \<and> length (filter resolved_on_time
               (closed_with_deadline None [on_time_item, late_item, late_item])) = 1
   \<and> (1 :: rat) / 3 * 100 \<noteq> 333 / 10"
  by code_simp

section \<open>The burndown series\<close>

lemma sql_count_nonneg: "0 \<le> sql_count c rows"
  by (simp add: sql_count_def)

lemma closed_on_nonneg: "0 \<le> closed_on rows day"
  by (simp add: closed_on_def Let_def sql_count_nonneg)

lemma burndown_loop_step:
  assumes "current_date \<le> now_date"
  shows "burndown_loop rows now_date current_date cumulative data
           = burndown_loop rows now_date (current_date + 1)
               (cumulative + closed_on rows current_date)
               (data @ [\<lparr>bp_date = current_date, open_items = open_on rows current_date,
                          closed_items = closed_on rows current_date,
                          cumulative_closed = cumulative + closed_on rows current_date\<rparr>])"
  using assms
  by (subst burndown_loop.simps) (simp add: Let_def closed_on_def open_on_def)

lemma burndown_loop_stop:
  assumes "\<not> current_date \<le> now_date"
  shows "burndown_loop rows now_date current_date cumulative data = data"
  using assms by (subst burndown_loop.simps) simp

lemma burndown_loop_dates:
  "map bp_date (burndown_loop rows now_date current_date cumulative data)
     = map bp_date data @ [current_date..now_date]"
proof (induction "nat (now_date + 1 - current_date)" arbitrary: current_date cumulative data)
  case 0
  then have "\<not> current_date \<le> now_date" by simp
  then show ?case by (simp add: burndown_loop_stop)
next
  case (Suc k)
  then have le: "current_date \<le> now_date" by simp
  have k: "k = nat (now_date + 1 - (current_date + 1))" using Suc.hyps(2) by simp
  have u: "[current_date..now_date] = current_date # [current_date + 1..now_date]"
    using le by (simp add: upto_rec1)
  show ?case
    by (simp only: burndown_loop_step [OF le] Suc.hyps(1) [OF k] u) simp
qed

lemma burndown_loop_sorted:
  assumes "sorted (map cumulative_closed data)"
    and "\<forall>p\<in>set data. cumulative_closed p \<le> cumulative"
  shows "sorted (map cumulative_closed
                   (burndown_loop rows now_date current_date cumulative data))"
  using assms
proof (induction "nat (now_date + 1 - current_date)" arbitrary: current_date cumulative data)
  case 0
  then have "\<not> current_date \<le> now_date" by simp
  then show ?case using "0.prems" by (simp add: burndown_loop_stop)
next
  case (Suc k)
  then have le: "current_date \<le> now_date" by simp
  have k: "k = nat (now_date + 1 - (current_date + 1))" using Suc.hyps(2) by simp
  let ?cum = "cumulative + closed_on rows current_date"
  let ?pt = "\<lparr>bp_date = current_date, open_items = open_on rows current_date,
               closed_items = closed_on rows current_date, cumulative_closed = ?cum\<rparr>"
  have mono: "cumulative \<le> ?cum"
    using closed_on_nonneg [of rows current_date] by simp
  have s: "sorted (map cumulative_closed (data @ [?pt]))"
    using Suc.prems mono by (auto simp: sorted_append)
  have b: "\<forall>p\<in>set (data @ [?pt]). cumulative_closed p \<le> ?cum"
    using Suc.prems(2) mono by auto
  show ?case
    using Suc.hyps(1) [OF k s b] by (simp only: burndown_loop_step [OF le])
qed

lemma start_date_of_window:
  "dt_date (datetime_add (datetime_now_utc clock) (- days * US_PER_DAY))
     = dt_date (datetime_now_utc clock) - days"
  by (simp add: datetime_add_def datetime_now_utc_def wall_us_of_wall_us dt_date_of_wall_us
        US_PER_DAY_def)

text \<open>
  C9. For every \<^verbatim>\<open>days\<close> from 7 to 90, every table and every clock,
  \<^verbatim>\<open>get_burndown_data\<close> returns exactly \<^verbatim>\<open>days + 1\<close> points, one for each day
  from \<^verbatim>\<open>days\<close> days before today up to today, and \<^verbatim>\<open>cumulative_closed\<close> never
  decreases along the series.
\<close>

theorem burndown_series:
  assumes "7 \<le> days" and "days \<le> 90"
  shows "length (get_burndown_data table clock days) = nat (days + 1)
         \<and> sorted (map cumulative_closed (get_burndown_data table clock days))
         \<and> map bp_date (get_burndown_data table clock days)
             = [dt_date (datetime_now_utc clock) - days .. dt_date (datetime_now_utc clock)]"
proof -
  let ?today = "dt_date (datetime_now_utc clock)"
  have d: "map bp_date (get_burndown_data table clock days) = [?today - days .. ?today]"
    unfolding get_burndown_data_def Let_def burndown_loop_dates start_date_of_window
    by simp
  have "length (map bp_date (get_burndown_data table clock days)) = nat (days + 1)"
    using assms by (simp only: d length_upto)
  then have l: "length (get_burndown_data table clock days) = nat (days + 1)"
    by simp
  have s: "sorted (map cumulative_closed (get_burndown_data table clock days))"
    unfolding get_burndown_data_def Let_def
    by (rule burndown_loop_sorted) simp_all
  show ?thesis using l s d by blast
qed

theorem burndown_series_witness:
  "length (get_burndown_data [on_time_item, late_item]
             (utc_instant (utc_datetime 2024 6 21 12 0 0)) 7) = 8
   \<and> sorted (map cumulative_closed
               (get_burndown_data [on_time_item, late_item]
                  (utc_instant (utc_datetime 2024 6 21 12 0 0)) 7))
   \<and> map cumulative_closed
        (get_burndown_data [on_time_item, late_item]
           (utc_instant (utc_datetime 2024 6 21 12 0 0)) 7) = [1, 1, 1, 1, 1, 1, 2, 2]
   \<and> map bp_date
        (get_burndown_data [on_time_item, late_item]
           (utc_instant (utc_datetime 2024 6 21 12 0 0)) 7)
       = [mk_date 2024 6 14 .. mk_date 2024 6 21]"
proof -
  let ?c = "utc_instant (utc_datetime 2024 6 21 12 0 0)"
  have today: "dt_date (datetime_now_utc ?c) = mk_date 2024 6 21"
    by code_simp
  have start: "mk_date 2024 6 21 - 7 = mk_date 2024 6 14"
    by code_simp
  have v: "map cumulative_closed (get_burndown_data [on_time_item, late_item] ?c 7)
             = [1, 1, 1, 1, 1, 1, 2, 2]"
    by code_simp
  have b: "(7 :: int) \<le> 7" "(7 :: int) \<le> 90"
    by simp_all
  show ?thesis
    using burndown_series [OF b, of "[on_time_item, late_item]" ?c] v
    by (simp only: today start) simp
qed

end
